theory Spec2Isabelle
  imports Main "HOL-Library.Word" "HOL-Library.Sublist"
begin

section \<open>DeletionQueue (vk\_engine.h)\<close>

text \<open>
  \<^verbatim>\<open>struct DeletionQueue\<close> holds a \<^verbatim>\<open>std::deque<std::function<void()>>\<close>.
  A stored callable is a value of type \<open>'d\<close>; invoking it is the function \<open>call\<close>
  handed to \<open>flush\<close>, which maps a callable to its effect on the surrounding world
  \<open>'w\<close>. Taking \<open>'d = 'w \<Rightarrow> 'w\<close> and \<open>call = (\<lambda>f. f)\<close> gives arbitrary closures.
\<close>

record 'd DeletionQueue =
  deletors :: "'d list"

definition push_function :: "'d DeletionQueue \<Rightarrow> 'd \<Rightarrow> 'd DeletionQueue" where
  "push_function q function = q\<lparr>deletors := deletors q @ [function]\<rparr>"

text \<open>
  The loop \<^verbatim>\<open>for (it = rbegin(); it != rend(); it++) (*it)();\<close>: the second argument
  is the list, the third the number of elements the reverse iterator has still to
  visit, so that \<^verbatim>\<open>*it\<close> is the element at index \<open>n\<close> when \<open>Suc n\<close> remain.
\<close>

fun flush_loop :: "('d \<Rightarrow> 'w \<Rightarrow> 'w) \<Rightarrow> 'd list \<Rightarrow> nat \<Rightarrow> 'w \<Rightarrow> 'w" where
  "flush_loop call ds 0 w = w"
| "flush_loop call ds (Suc n) w = flush_loop call ds n (call (ds ! n) w)"

definition flush :: "('d \<Rightarrow> 'w \<Rightarrow> 'w) \<Rightarrow> 'd DeletionQueue \<Rightarrow> 'w \<Rightarrow> 'w \<times> 'd DeletionQueue" where
  "flush call q w =
     (flush_loop call (deletors q) (length (deletors q)) w, q\<lparr>deletors := []\<rparr>)"

text \<open>A sequence of \<^verbatim>\<open>push_function\<close> calls, first element pushed first.\<close>

definition push_all :: "'d DeletionQueue \<Rightarrow> 'd list \<Rightarrow> 'd DeletionQueue" where
  "push_all q fs = foldl push_function q fs"

text \<open>An action that only records its own name in a log, to observe executions.\<close>

definition log_action :: "'a \<Rightarrow> 'a list \<Rightarrow> 'a list" where
  "log_action a log = log @ [a]"

section \<open>The Vulkan and SDL interface, as far as the engine uses it\<close>

text \<open>
  Handles (\<^verbatim>\<open>VkDevice\<close>, \<^verbatim>\<open>VkFence\<close>, \<^verbatim>\<open>SDL_Window*\<close>, ...) are opaque to the engine
  and are natural numbers here; \<^verbatim>\<open>VK_NULL_HANDLE\<close> and \<^verbatim>\<open>nullptr\<close> are \<open>0\<close>.
\<close>

type_synonym handle = nat

definition VK_NULL_HANDLE :: handle where
  "VK_NULL_HANDLE = 0"

datatype VkResult =
    VK_SUCCESS
  | VK_NOT_READY
  | VK_TIMEOUT
  | VK_SUBOPTIMAL_KHR
  | VK_ERROR_OUT_OF_HOST_MEMORY
  | VK_ERROR_OUT_OF_DEVICE_MEMORY
  | VK_ERROR_DEVICE_LOST
  | VK_ERROR_SURFACE_LOST_KHR
  | VK_ERROR_OUT_OF_DATE_KHR

datatype VkImageLayout =
    VK_IMAGE_LAYOUT_UNDEFINED
  | VK_IMAGE_LAYOUT_GENERAL
  | VK_IMAGE_LAYOUT_TRANSFER_SRC_OPTIMAL
  | VK_IMAGE_LAYOUT_TRANSFER_DST_OPTIMAL
  | VK_IMAGE_LAYOUT_PRESENT_SRC_KHR

datatype VkPipelineStageFlags2 =
    VK_PIPELINE_STAGE_2_COLOR_ATTACHMENT_OUTPUT_BIT_KHR
  | VK_PIPELINE_STAGE_2_ALL_COMMANDS_BIT

datatype VkFormat = VK_FORMAT_B8G8R8A8_UNORM | VK_FORMAT_R16G16B16A16_SFLOAT

datatype VkPresentModeKHR = VK_PRESENT_MODE_FIFO_KHR

datatype VkExtent2D = VkExtent2D (width: "32 word") (height: "32 word")

datatype VkExtent3D = VkExtent3D (width3: "32 word") (height3: "32 word") (depth3: "32 word")

text \<open>Flag words, with the bit values of the Vulkan headers.\<close>

definition VK_FENCE_CREATE_SIGNALED_BIT :: "32 word" where
  "VK_FENCE_CREATE_SIGNALED_BIT = 1"

definition VK_COMMAND_BUFFER_USAGE_ONE_TIME_SUBMIT_BIT :: "32 word" where
  "VK_COMMAND_BUFFER_USAGE_ONE_TIME_SUBMIT_BIT = 1"

definition VK_COMMAND_POOL_CREATE_RESET_COMMAND_BUFFER_BIT :: "32 word" where
  "VK_COMMAND_POOL_CREATE_RESET_COMMAND_BUFFER_BIT = 2"

definition VK_IMAGE_USAGE_TRANSFER_SRC_BIT :: "32 word" where
  "VK_IMAGE_USAGE_TRANSFER_SRC_BIT = 1"

definition VK_IMAGE_USAGE_TRANSFER_DST_BIT :: "32 word" where
  "VK_IMAGE_USAGE_TRANSFER_DST_BIT = 2"

definition VK_IMAGE_USAGE_STORAGE_BIT :: "32 word" where
  "VK_IMAGE_USAGE_STORAGE_BIT = 8"

definition VK_IMAGE_USAGE_COLOR_ATTACHMENT_BIT :: "32 word" where
  "VK_IMAGE_USAGE_COLOR_ATTACHMENT_BIT = 16"

datatype VkSemaphoreSubmitInfo =
  VkSemaphoreSubmitInfo (stageMask: VkPipelineStageFlags2) (semaphore: handle)

datatype VkSubmitInfo2 =
  VkSubmitInfo2
    (pWaitSemaphoreInfos: "VkSemaphoreSubmitInfo list")
    (pSignalSemaphoreInfos: "VkSemaphoreSubmitInfo list")
    (pCommandBufferInfos: "handle list")

datatype VkPresentInfoKHR =
  VkPresentInfoKHR
    (pSwapchains: "handle list")
    (pWaitSemaphores: "handle list")
    (pImageIndices: "32 word list")

text \<open>
  Modelled from the spec: the helpers of \<^verbatim>\<open>vkinit::\<close> (declared in vk\_initializers.h,
  which is not part of the sources at hand). Each only fills an info structure from
  its arguments; \<^verbatim>\<open>submit_info(cmd, signal, wait)\<close> makes a submission of one command
  buffer that waits on \<^verbatim>\<open>wait\<close> and signals \<^verbatim>\<open>signal\<close>.
\<close>

definition fence_create_info :: "32 word \<Rightarrow> 32 word" where
  "fence_create_info flags = flags"

definition command_buffer_begin_info :: "32 word \<Rightarrow> 32 word" where
  "command_buffer_begin_info flags = flags"

definition command_buffer_submit_info :: "handle \<Rightarrow> handle" where
  "command_buffer_submit_info cmd = cmd"

definition semaphore_submit_info :: "VkPipelineStageFlags2 \<Rightarrow> handle \<Rightarrow> VkSemaphoreSubmitInfo" where
  "semaphore_submit_info stage sem = VkSemaphoreSubmitInfo stage sem"

definition submit_info :: "handle \<Rightarrow> VkSemaphoreSubmitInfo \<Rightarrow> VkSemaphoreSubmitInfo \<Rightarrow> VkSubmitInfo2" where
  "submit_info cmd signalSemaphoreInfo waitSemaphoreInfo =
     VkSubmitInfo2 [waitSemaphoreInfo] [signalSemaphoreInfo] [cmd]"

text \<open>
  Every call the engine makes across its boundary, with the arguments it passes,
  in three groups: the calls of initialisation (a creation call also carries the
  handle it returned), the calls that release a resource, and the calls of one frame.
  The clear colour of \<^verbatim>\<open>vkCmdClearColorImage\<close> is a floating-point value and is
  left out.
\<close>

datatype setup_call =
    SDL_Init
  | SDL_CreateWindow "32 word" "32 word" handle
  | Vkb_InstanceBuilder_build
  | SDL_Vulkan_CreateSurface handle handle handle
  | Vkb_PhysicalDeviceSelector_select handle
  | Vkb_DeviceBuilder_build handle
  | Vkb_get_queue
  | Vkb_get_queue_index
  | VmaCreateAllocator handle handle handle handle
  | Vkb_SwapchainBuilder_build VkFormat VkPresentModeKHR "32 word" "32 word" "32 word"
  | VmaCreateImage handle VkFormat "32 word" VkExtent3D handle handle
  | VkCreateImageView handle VkFormat handle handle
  | VkCreateCommandPool handle "32 word" "32 word" handle
  | VkAllocateCommandBuffers handle handle nat handle
  | VkCreateFence handle "32 word" handle
  | VkCreateSemaphore handle handle

datatype release_call =
    VkDestroyCommandPool handle handle
  | VkDestroyFence handle handle
  | VkDestroySemaphore handle handle
  | VkDestroySwapchainKHR handle handle
  | VkDestroyImageView handle handle
  | VkDestroySurfaceKHR handle handle
  | VkDestroyDevice handle
  | Vkb_destroy_debug_utils_messenger handle handle
  | VkDestroyInstance handle
  | SDL_DestroyWindow handle
  | VmaDestroyAllocator handle
  | VmaDestroyImage handle handle handle

datatype frame_call =
    VkWaitForFences handle handle bool nat
  | VkResetFences handle handle
  | VkAcquireNextImageKHR handle handle nat handle handle
  | VkResetCommandBuffer handle "32 word"
  | VkBeginCommandBuffer handle "32 word"
  | Transition_image handle handle VkImageLayout VkImageLayout
  | VkCmdClearColorImage handle handle VkImageLayout
  | Copy_image_to_image handle handle handle VkExtent2D VkExtent2D
  | VkEndCommandBuffer handle
  | VkQueueSubmit2 handle VkSubmitInfo2 handle
  | VkQueuePresentKHR handle VkPresentInfoKHR

datatype call =
    Setup setup_call
  | Release release_call
  | Frame frame_call
  | VkDeviceWaitIdle handle
  | Fmt_print string
  | Sleep_for_milliseconds nat

text \<open>
  What lies outside the engine object: the global \<^verbatim>\<open>VulkanEngine* loadedEngine\<close>
  (\<open>None\<close> is \<^verbatim>\<open>nullptr\<close>), the calls made so far in program order, the state of
  each fence as the device holds it, and the time spent blocked in fence waits
  (nanoseconds).
\<close>

record World =
  loadedEngine :: "handle option"
  calls :: "call list"
  signalled :: "handle \<Rightarrow> bool"
  blocked_ns :: nat

definition emit :: "call \<Rightarrow> World \<Rightarrow> World" where
  "emit c w = w\<lparr>calls := calls w @ [c]\<rparr>"

definition calls_since :: "World \<Rightarrow> World \<Rightarrow> call list" where
  "calls_since w w' = drop (length (calls w)) (calls w')"

subsection \<open>Fences as the device implements them\<close>

text \<open>
  The GPU runs on its own: what it does to a fence while the CPU waits is an input.
  \<open>GpuSignalsAfter d\<close>: the work the fence guards ends \<open>d\<close> nanoseconds into the wait.
\<close>

datatype GpuProgress = GpuSignalsAfter nat | GpuNeverSignals | GpuDeviceLost

text \<open>
  \<^verbatim>\<open>vkWaitForFences\<close> on one fence: a signalled fence returns at once; otherwise the
  call blocks until the GPU signals the fence or the timeout passes.
\<close>

definition fence_wait_result :: "World \<Rightarrow> GpuProgress \<Rightarrow> handle \<Rightarrow> nat \<Rightarrow> VkResult" where
  "fence_wait_result w gpu fence timeout =
     (if signalled w fence then VK_SUCCESS
      else case gpu of
          GpuSignalsAfter d \<Rightarrow> if d \<le> timeout then VK_SUCCESS else VK_TIMEOUT
        | GpuNeverSignals \<Rightarrow> VK_TIMEOUT
        | GpuDeviceLost \<Rightarrow> VK_ERROR_DEVICE_LOST)"

definition fence_wait_time :: "World \<Rightarrow> GpuProgress \<Rightarrow> handle \<Rightarrow> nat \<Rightarrow> nat" where
  "fence_wait_time w gpu fence timeout =
     (if signalled w fence then 0
      else case gpu of
          GpuSignalsAfter d \<Rightarrow> min d timeout
        | GpuNeverSignals \<Rightarrow> timeout
        | GpuDeviceLost \<Rightarrow> 0)"

definition vkWaitForFences :: "GpuProgress \<Rightarrow> handle \<Rightarrow> handle \<Rightarrow> bool \<Rightarrow> nat \<Rightarrow> World \<Rightarrow> VkResult \<times> World" where
  "vkWaitForFences gpu dev fence waitAll timeout w =
     (let r = fence_wait_result w gpu fence timeout in
      (r, (emit (Frame (VkWaitForFences dev fence waitAll timeout)) w)
            \<lparr>signalled := (signalled w)(fence := (r = VK_SUCCESS)),
             blocked_ns := blocked_ns w + fence_wait_time w gpu fence timeout\<rparr>))"

text \<open>\<^verbatim>\<open>vkResetFences\<close> on one fence: on success the fence is unsignalled.\<close>

definition vkResetFences :: "VkResult \<Rightarrow> handle \<Rightarrow> handle \<Rightarrow> World \<Rightarrow> VkResult \<times> World" where
  "vkResetFences r dev fence w =
     (r, (emit (Frame (VkResetFences dev fence)) w)
           \<lparr>signalled := (if r = VK_SUCCESS then (signalled w)(fence := False) else signalled w)\<rparr>)"

section \<open>The engine (vk\_engine.h)\<close>

text \<open>
  The two lambdas the engine pushes onto a deletion queue, by the place that pushes
  them. Both read the engine's members when they run (\<^verbatim>\<open>[&]\<close>, and \<^verbatim>\<open>[=]\<close> inside a
  member function, which copies \<^verbatim>\<open>this\<close>).
\<close>

datatype deletor = DestroyAllocatorFn | DestroyDrawImageFn

text \<open>\<^verbatim>\<open>AllocatedImage\<close>, with the members the engine uses.\<close>

record AllocatedImage =
  imageHandle :: handle
  imageView :: handle
  allocation :: handle
  imageExtent :: VkExtent3D
  imageFormat :: VkFormat

record FrameData =
  commandPool :: handle
  mainCommandBuffer :: handle
  swapchainSemaphore :: handle
  renderSemaphore :: handle
  renderFence :: handle
  deletionQueue :: "deletor DeletionQueue"

definition FRAME_OVERLAP :: nat where
  "FRAME_OVERLAP = 2"

text \<open>
  \<^verbatim>\<open>class VulkanEngine\<close>. The \<^verbatim>\<open>int _frameNumber\<close> is a 32-bit word in two's
  complement; \<^verbatim>\<open>_frames[FRAME_OVERLAP]\<close> is a function of the index, read at
  \<open>0\<close> and \<open>1\<close> only.
\<close>

record Engine =
  isInitialized :: bool
  frameNumber :: "32 word"
  stop_rendering :: bool
  windowExtent :: VkExtent2D
  vkInstance :: handle
  debugMessenger :: handle
  chosenGPU :: handle
  device :: handle
  surface :: handle
  swapchain :: handle
  swapchainImageFormat :: VkFormat
  swapchainImages :: "handle list"
  swapchainImageViews :: "handle list"
  swapchainExtent :: VkExtent2D
  frames :: "nat \<Rightarrow> FrameData"
  graphicsQueue :: handle
  graphicsQueueFamily :: "32 word"
  window :: handle
  mainDeletionQueue :: "deletor DeletionQueue"
  allocator :: handle
  drawImage :: AllocatedImage
  drawExtent :: VkExtent2D

text \<open>
  \<^verbatim>\<open>_frames[_frameNumber % FRAME_OVERLAP]\<close>: the \<^verbatim>\<open>int\<close> is converted to
  \<^verbatim>\<open>unsigned int\<close> for the remainder.
\<close>

definition current_frame_index :: "Engine \<Rightarrow> nat" where
  "current_frame_index e = unat (frameNumber e) mod FRAME_OVERLAP"

definition get_current_frame :: "Engine \<Rightarrow> FrameData" where
  "get_current_frame e = frames e (current_frame_index e)"

text \<open>The calls each lambda makes when it is invoked on the engine \<open>e\<close>.\<close>

fun deletor_calls :: "Engine \<Rightarrow> deletor \<Rightarrow> call list" where
  "deletor_calls e DestroyAllocatorFn = [Release (VmaDestroyAllocator (allocator e))]"
| "deletor_calls e DestroyDrawImageFn =
     [Release (VkDestroyImageView (device e) (imageView (drawImage e))),
      Release (VmaDestroyImage (allocator e) (imageHandle (drawImage e)) (allocation (drawImage e)))]"

definition call_deletor :: "Engine \<Rightarrow> deletor \<Rightarrow> World \<Rightarrow> World" where
  "call_deletor e d w = fold emit (deletor_calls e d) w"

subsection \<open>Failures that end the process\<close>

datatype failure =
    AssertionFailed
  | VkCheckFailed VkResult
  | VkbNoValue
  | VectorIndexOutOfRange

type_synonym state = "Engine \<times> World"

type_synonym outcome = "(failure \<times> state) + state"

definition and_then :: "outcome \<Rightarrow> (state \<Rightarrow> outcome) \<Rightarrow> outcome" where
  "and_then r f = (case r of Inl x \<Rightarrow> Inl x | Inr s \<Rightarrow> f s)"

definition outcome_state :: "outcome \<Rightarrow> state" where
  "outcome_state r = (case r of Inl (x, s) \<Rightarrow> s | Inr s \<Rightarrow> s)"

text \<open>
  Modelled from the spec: the macro \<^verbatim>\<open>VK_CHECK\<close> (vk\_types.h is not part of the sources
  at hand). Any result that is not success is a generic, process-ending error, with
  no branch on which error it was.
\<close>

definition VK_CHECK :: "VkResult \<Rightarrow> state \<Rightarrow> outcome" where
  "VK_CHECK err s = (if err \<noteq> VK_SUCCESS then Inl (VkCheckFailed err, s) else Inr s)"

text \<open>A checked call with no effect on the model beyond being made.\<close>

definition vk_call :: "call \<Rightarrow> VkResult \<Rightarrow> state \<Rightarrow> outcome" where
  "vk_call c r s = VK_CHECK r (fst s, emit c (snd s))"

definition do_call :: "call \<Rightarrow> state \<Rightarrow> state" where
  "do_call c s = (fst s, emit c (snd s))"

section \<open>VulkanEngine::draw (vk\_engine.cpp)\<close>

text \<open>
  What the device and the presentation engine answer during one call of \<^verbatim>\<open>draw()\<close>.
\<close>

record FrameEnv =
  gpu_progress :: GpuProgress
  reset_fences_result :: VkResult
  acquire_result :: VkResult
  acquire_index :: "32 word"
  reset_command_buffer_result :: VkResult
  begin_result :: VkResult
  end_result :: VkResult
  submit_result :: VkResult
  present_result :: VkResult

definition wait_render_fence :: "FrameEnv \<Rightarrow> state \<Rightarrow> outcome" where
  "wait_render_fence env s =
     (let (r, w') = vkWaitForFences (gpu_progress env) (device (fst s))
                      (renderFence (get_current_frame (fst s))) True 1000000000 (snd s)
      in VK_CHECK r (fst s, w'))"

definition flush_current_frame :: "state \<Rightarrow> state" where
  "flush_current_frame s =
     (let e = fst s; i = current_frame_index e;
          (w', q') = flush (call_deletor e) (deletionQueue (frames e i)) (snd s)
      in (e\<lparr>frames := (frames e)(i := (frames e i)\<lparr>deletionQueue := q'\<rparr>)\<rparr>, w'))"

definition reset_render_fence :: "FrameEnv \<Rightarrow> state \<Rightarrow> outcome" where
  "reset_render_fence env s =
     (let (r, w') = vkResetFences (reset_fences_result env) (device (fst s))
                      (renderFence (get_current_frame (fst s))) (snd s)
      in VK_CHECK r (fst s, w'))"

definition acquire_next_image :: "FrameEnv \<Rightarrow> state \<Rightarrow> outcome" where
  "acquire_next_image env s =
     vk_call (Frame (VkAcquireNextImageKHR (device (fst s)) (swapchain (fst s)) 1000000000
                (swapchainSemaphore (get_current_frame (fst s))) VK_NULL_HANDLE))
       (acquire_result env) s"

definition reset_command_buffer :: "FrameEnv \<Rightarrow> state \<Rightarrow> outcome" where
  "reset_command_buffer env s =
     vk_call (Frame (VkResetCommandBuffer (mainCommandBuffer (get_current_frame (fst s))) 0))
       (reset_command_buffer_result env) s"

definition set_draw_extent :: "state \<Rightarrow> state" where
  "set_draw_extent s =
     (let e = fst s in
      (e\<lparr>drawExtent := VkExtent2D (width3 (imageExtent (drawImage e)))
                                    (height3 (imageExtent (drawImage e)))\<rparr>, snd s))"

definition begin_command_buffer :: "FrameEnv \<Rightarrow> state \<Rightarrow> outcome" where
  "begin_command_buffer env s =
     vk_call (Frame (VkBeginCommandBuffer (mainCommandBuffer (get_current_frame (fst s)))
                (command_buffer_begin_info VK_COMMAND_BUFFER_USAGE_ONE_TIME_SUBMIT_BIT)))
       (begin_result env) s"

definition draw_background :: "handle \<Rightarrow> state \<Rightarrow> state" where
  "draw_background cmdBuff s =
     do_call (Frame (VkCmdClearColorImage cmdBuff (imageHandle (drawImage (fst s)))
                VK_IMAGE_LAYOUT_GENERAL)) s"

text \<open>
  \<^verbatim>\<open>_swapchainImages[swapchainImageIndex]\<close>: an index outside the vector has no
  defined behaviour in the source; the model ends the process there.
\<close>

definition swapchain_image_at :: "Engine \<Rightarrow> 32 word \<Rightarrow> handle option" where
  "swapchain_image_at e i =
     (if unat i < length (swapchainImages e) then Some (swapchainImages e ! unat i) else None)"

definition record_commands :: "FrameEnv \<Rightarrow> state \<Rightarrow> outcome" where
  "record_commands env s0 =
     (let cmdBuff = mainCommandBuffer (get_current_frame (fst s0));
          s1 = do_call (Frame (Transition_image cmdBuff (imageHandle (drawImage (fst s0)))
                  VK_IMAGE_LAYOUT_UNDEFINED VK_IMAGE_LAYOUT_GENERAL)) s0;
          s2 = draw_background cmdBuff s1;
          s3 = do_call (Frame (Transition_image cmdBuff (imageHandle (drawImage (fst s2)))
                  VK_IMAGE_LAYOUT_GENERAL VK_IMAGE_LAYOUT_TRANSFER_SRC_OPTIMAL)) s2
      in case swapchain_image_at (fst s3) (acquire_index env) of
           None \<Rightarrow> Inl (VectorIndexOutOfRange, s3)
         | Some swapchainImage \<Rightarrow>
            (let s4 = do_call (Frame (Transition_image cmdBuff swapchainImage
                        VK_IMAGE_LAYOUT_UNDEFINED VK_IMAGE_LAYOUT_TRANSFER_DST_OPTIMAL)) s3;
                 s5 = do_call (Frame (Copy_image_to_image cmdBuff (imageHandle (drawImage (fst s4)))
                        swapchainImage (drawExtent (fst s4)) (swapchainExtent (fst s4)))) s4;
                 s6 = do_call (Frame (Transition_image cmdBuff swapchainImage
                        VK_IMAGE_LAYOUT_TRANSFER_DST_OPTIMAL VK_IMAGE_LAYOUT_PRESENT_SRC_KHR)) s5
             in vk_call (Frame (VkEndCommandBuffer cmdBuff)) (end_result env) s6))"

definition submit_commands :: "FrameEnv \<Rightarrow> state \<Rightarrow> outcome" where
  "submit_commands env s =
     (let e = fst s;
          cmdInfo = command_buffer_submit_info (mainCommandBuffer (get_current_frame e));
          waitInfo = semaphore_submit_info VK_PIPELINE_STAGE_2_COLOR_ATTACHMENT_OUTPUT_BIT_KHR
                       (swapchainSemaphore (get_current_frame e));
          signalInfo = semaphore_submit_info VK_PIPELINE_STAGE_2_ALL_COMMANDS_BIT
                         (renderSemaphore (get_current_frame e));
          submit = submit_info cmdInfo signalInfo waitInfo
      in vk_call (Frame (VkQueueSubmit2 (graphicsQueue e) submit (renderFence (get_current_frame e))))
           (submit_result env) s)"

definition present_image :: "FrameEnv \<Rightarrow> state \<Rightarrow> outcome" where
  "present_image env s =
     (let e = fst s;
          presentInfo = VkPresentInfoKHR [swapchain e] [renderSemaphore (get_current_frame e)]
                          [acquire_index env]
      in vk_call (Frame (VkQueuePresentKHR (graphicsQueue e) presentInfo)) (present_result env) s)"

definition increase_frame_number :: "state \<Rightarrow> state" where
  "increase_frame_number s = ((fst s)\<lparr>frameNumber := frameNumber (fst s) + 1\<rparr>, snd s)"

definition draw :: "FrameEnv \<Rightarrow> state \<Rightarrow> outcome" where
  "draw env s =
     and_then (wait_render_fence env s) (\<lambda>s.
     and_then (reset_render_fence env (flush_current_frame s)) (\<lambda>s.
     and_then (acquire_next_image env s) (\<lambda>s.
     and_then (reset_command_buffer env s) (\<lambda>s.
     and_then (begin_command_buffer env (set_draw_extent s)) (\<lambda>s.
     and_then (record_commands env s) (\<lambda>s.
     and_then (submit_commands env s) (\<lambda>s.
     and_then (present_image env s) (\<lambda>s.
     Inr (increase_frame_number s)))))))))"

section \<open>VulkanEngine::init and its parts (vk\_engine.cpp)\<close>

text \<open>
  What the window system, vk-bootstrap, the allocator and the device answer during
  \<^verbatim>\<open>init()\<close>. A vk-bootstrap result is \<open>None\<close> when it holds an error; the engine takes
  \<^verbatim>\<open>.value()\<close> of each without looking, which ends the process on an error. The
  per-frame creation calls are indexed by the frame they are made for.
\<close>

record InitEnv =
  sdl_window :: handle
  vkb_instance :: "(handle \<times> handle) option"
  sdl_surface :: handle
  vkb_physical_device :: "handle option"
  vkb_device :: "handle option"
  vkb_queue :: "handle option"
  vkb_queue_index :: "32 word option"
  vma_allocator :: handle
  vkb_swapchain :: "(handle \<times> VkExtent2D) option"
  vkb_images :: "handle list option"
  vkb_image_views :: "handle list option"
  vma_image :: "handle \<times> handle"
  create_image_view :: "VkResult \<times> handle"
  create_command_pool :: "nat \<Rightarrow> VkResult \<times> handle"
  allocate_command_buffers :: "nat \<Rightarrow> VkResult \<times> handle"
  create_fence :: "nat \<Rightarrow> VkResult \<times> handle"
  create_swapchain_semaphore :: "nat \<Rightarrow> VkResult \<times> handle"
  create_render_semaphore :: "nat \<Rightarrow> VkResult \<times> handle"

text \<open>\<^verbatim>\<open>.value()\<close> of a vk-bootstrap result, after the call that produced it.\<close>

definition vkb_value :: "call \<Rightarrow> 'a option \<Rightarrow> state \<Rightarrow> (failure \<times> state) + ('a \<times> state)" where
  "vkb_value c r s =
     (case r of None \<Rightarrow> Inl (VkbNoValue, do_call c s) | Some v \<Rightarrow> Inr (v, do_call c s))"

definition update_frame :: "nat \<Rightarrow> (FrameData \<Rightarrow> FrameData) \<Rightarrow> Engine \<Rightarrow> Engine" where
  "update_frame i f e = e\<lparr>frames := (frames e)(i := f (frames e i))\<rparr>"

text \<open>A \<^verbatim>\<open>for (int i = 0; i < FRAME_OVERLAP; i++)\<close> loop whose body may end the process.\<close>

fun for_each_frame :: "(nat \<Rightarrow> state \<Rightarrow> outcome) \<Rightarrow> nat list \<Rightarrow> state \<Rightarrow> outcome" where
  "for_each_frame body [] s = Inr s"
| "for_each_frame body (i # js) s = and_then (body i s) (for_each_frame body js)"

definition init_vulkan :: "InitEnv \<Rightarrow> state \<Rightarrow> outcome" where
  "init_vulkan env s0 =
     (case vkb_value (Setup Vkb_InstanceBuilder_build) (vkb_instance env) s0 of
        Inl x \<Rightarrow> Inl x
      | Inr ((inst, messenger), s1) \<Rightarrow>
     (let e2 = (fst s1)\<lparr>vkInstance := inst, debugMessenger := messenger\<rparr>;
          s3 = do_call (Setup (SDL_Vulkan_CreateSurface (window e2) (vkInstance e2) (sdl_surface env)))
                 (e2\<lparr>surface := sdl_surface env\<rparr>, snd s1)
      in case vkb_value (Setup (Vkb_PhysicalDeviceSelector_select (surface (fst s3))))
                (vkb_physical_device env) s3 of
        Inl x \<Rightarrow> Inl x
      | Inr (physicalDevice, s4) \<Rightarrow>
     (case vkb_value (Setup (Vkb_DeviceBuilder_build physicalDevice)) (vkb_device env) s4 of
        Inl x \<Rightarrow> Inl x
      | Inr (vkbDevice, s5) \<Rightarrow>
     (let s6 = ((fst s5)\<lparr>device := vkbDevice, chosenGPU := physicalDevice\<rparr>, snd s5)
      in case vkb_value (Setup Vkb_get_queue) (vkb_queue env) s6 of
        Inl x \<Rightarrow> Inl x
      | Inr (queue, s7) \<Rightarrow>
     (case vkb_value (Setup Vkb_get_queue_index) (vkb_queue_index env)
             ((fst s7)\<lparr>graphicsQueue := queue\<rparr>, snd s7) of
        Inl x \<Rightarrow> Inl x
      | Inr (family, s8) \<Rightarrow>
     (let e9 = (fst s8)\<lparr>graphicsQueueFamily := family\<rparr>;
          s10 = do_call (Setup (VmaCreateAllocator (chosenGPU e9) (device e9) (vkInstance e9)
                   (vma_allocator env))) (e9\<lparr>allocator := vma_allocator env\<rparr>, snd s8)
      in Inr ((fst s10)\<lparr>mainDeletionQueue :=
                 push_function (mainDeletionQueue (fst s10)) DestroyAllocatorFn\<rparr>, snd s10)))))))"

definition create_swapchain :: "InitEnv \<Rightarrow> 32 word \<Rightarrow> 32 word \<Rightarrow> state \<Rightarrow> outcome" where
  "create_swapchain env w h s0 =
     (let s1 = ((fst s0)\<lparr>swapchainImageFormat := VK_FORMAT_B8G8R8A8_UNORM\<rparr>, snd s0)
      in case vkb_value (Setup (Vkb_SwapchainBuilder_build (swapchainImageFormat (fst s1))
                  VK_PRESENT_MODE_FIFO_KHR w h VK_IMAGE_USAGE_TRANSFER_DST_BIT))
                (vkb_swapchain env) s1 of
        Inl x \<Rightarrow> Inl x
      | Inr ((chain, extent), s2) \<Rightarrow>
     (case vkb_images env of
        None \<Rightarrow> Inl (VkbNoValue, ((fst s2)\<lparr>swapchainExtent := extent, swapchain := chain\<rparr>, snd s2))
      | Some images \<Rightarrow>
     (case vkb_image_views env of
        None \<Rightarrow> Inl (VkbNoValue, ((fst s2)\<lparr>swapchainExtent := extent, swapchain := chain,
                                            swapchainImages := images\<rparr>, snd s2))
      | Some views \<Rightarrow>
          Inr ((fst s2)\<lparr>swapchainExtent := extent, swapchain := chain,
                         swapchainImages := images, swapchainImageViews := views\<rparr>, snd s2))))"

definition init_swapchain :: "InitEnv \<Rightarrow> state \<Rightarrow> outcome" where
  "init_swapchain env s0 =
     and_then (create_swapchain env (width (windowExtent (fst s0))) (height (windowExtent (fst s0))) s0)
     (\<lambda>s1.
       let e1 = fst s1;
           drawImageExtent = VkExtent3D (width (windowExtent e1)) (height (windowExtent e1)) 1;
           e2 = e1\<lparr>drawImage := (drawImage e1)\<lparr>imageFormat := VK_FORMAT_R16G16B16A16_SFLOAT,
                                                   imageExtent := drawImageExtent\<rparr>\<rparr>;
           drawImageUsages = or (or (or VK_IMAGE_USAGE_TRANSFER_SRC_BIT VK_IMAGE_USAGE_TRANSFER_DST_BIT)
                                   VK_IMAGE_USAGE_STORAGE_BIT) VK_IMAGE_USAGE_COLOR_ATTACHMENT_BIT;
           s3 = do_call (Setup (VmaCreateImage (allocator e2) (imageFormat (drawImage e2))
                   drawImageUsages drawImageExtent (fst (vma_image env)) (snd (vma_image env))))
                 (e2\<lparr>drawImage := (drawImage e2)\<lparr>imageHandle := fst (vma_image env),
                                                   allocation := snd (vma_image env)\<rparr>\<rparr>, snd s1);
           e3 = fst s3
       in and_then
            (vk_call (Setup (VkCreateImageView (device e3) (imageFormat (drawImage e3))
                       (imageHandle (drawImage e3)) (snd (create_image_view env))))
               (fst (create_image_view env))
               (e3\<lparr>drawImage := (drawImage e3)\<lparr>imageView := snd (create_image_view env)\<rparr>\<rparr>, snd s3))
            (\<lambda>s4. Inr ((fst s4)\<lparr>mainDeletionQueue :=
                          push_function (mainDeletionQueue (fst s4)) DestroyDrawImageFn\<rparr>, snd s4)))"

definition init_commands_body :: "InitEnv \<Rightarrow> nat \<Rightarrow> state \<Rightarrow> outcome" where
  "init_commands_body env i s0 =
     and_then
       (vk_call (Setup (VkCreateCommandPool (device (fst s0)) (graphicsQueueFamily (fst s0))
                   VK_COMMAND_POOL_CREATE_RESET_COMMAND_BUFFER_BIT (snd (create_command_pool env i))))
          (fst (create_command_pool env i))
          (update_frame i (\<lambda>f. f\<lparr>commandPool := snd (create_command_pool env i)\<rparr>) (fst s0), snd s0))
       (\<lambda>s1.
          vk_call (Setup (VkAllocateCommandBuffers (device (fst s1)) (commandPool (frames (fst s1) i)) 1
                     (snd (allocate_command_buffers env i))))
            (fst (allocate_command_buffers env i))
            (update_frame i (\<lambda>f. f\<lparr>mainCommandBuffer := snd (allocate_command_buffers env i)\<rparr>) (fst s1),
             snd s1))"

definition init_commands :: "InitEnv \<Rightarrow> state \<Rightarrow> outcome" where
  "init_commands env s = for_each_frame (init_commands_body env) [0..<FRAME_OVERLAP] s"

text \<open>
  \<^verbatim>\<open>vkCreateFence\<close> as the device implements it: on success the new fence starts
  signalled exactly when the create flags have \<^verbatim>\<open>VK_FENCE_CREATE_SIGNALED_BIT\<close>.
\<close>

definition vkCreateFence :: "VkResult \<Rightarrow> handle \<Rightarrow> 32 word \<Rightarrow> handle \<Rightarrow> World \<Rightarrow> VkResult \<times> World" where
  "vkCreateFence r dev flags fence w =
     (r, (emit (Setup (VkCreateFence dev flags fence)) w)
           \<lparr>signalled := (if r = VK_SUCCESS
                           then (signalled w)(fence := (and flags VK_FENCE_CREATE_SIGNALED_BIT \<noteq> 0))
                           else signalled w)\<rparr>)"

definition init_sync_body :: "InitEnv \<Rightarrow> nat \<Rightarrow> state \<Rightarrow> outcome" where
  "init_sync_body env i s0 =
     (let fenceCreateInfo = fence_create_info VK_FENCE_CREATE_SIGNALED_BIT;
          (r, w1) = vkCreateFence (fst (create_fence env i)) (device (fst s0)) fenceCreateInfo
                      (snd (create_fence env i)) (snd s0)
      in and_then
           (VK_CHECK r (update_frame i (\<lambda>f. f\<lparr>renderFence := snd (create_fence env i)\<rparr>) (fst s0), w1))
           (\<lambda>s1. and_then
              (vk_call (Setup (VkCreateSemaphore (device (fst s1)) (snd (create_swapchain_semaphore env i))))
                 (fst (create_swapchain_semaphore env i))
                 (update_frame i (\<lambda>f. f\<lparr>swapchainSemaphore := snd (create_swapchain_semaphore env i)\<rparr>)
                    (fst s1), snd s1))
              (\<lambda>s2.
                 vk_call (Setup (VkCreateSemaphore (device (fst s2)) (snd (create_render_semaphore env i))))
                   (fst (create_render_semaphore env i))
                   (update_frame i (\<lambda>f. f\<lparr>renderSemaphore := snd (create_render_semaphore env i)\<rparr>)
                      (fst s2), snd s2))))"

definition init_sync_structures :: "InitEnv \<Rightarrow> state \<Rightarrow> outcome" where
  "init_sync_structures env s = for_each_frame (init_sync_body env) [0..<FRAME_OVERLAP] s"

text \<open>
  \<^verbatim>\<open>init()\<close> on the engine object at address \<open>this\<close>. The \<^verbatim>\<open>assert\<close> is taken as
  compiled in: a failed assertion ends the process.
\<close>

definition init :: "InitEnv \<Rightarrow> handle \<Rightarrow> state \<Rightarrow> outcome" where
  "init env this s =
     (if loadedEngine (snd s) \<noteq> None then Inl (AssertionFailed, s)
      else
        let s1 = do_call (Setup SDL_Init) (fst s, (snd s)\<lparr>loadedEngine := Some this\<rparr>);
            s2 = do_call (Setup (SDL_CreateWindow (width (windowExtent (fst s1)))
                     (height (windowExtent (fst s1))) (sdl_window env)))
                   ((fst s1)\<lparr>window := sdl_window env\<rparr>, snd s1)
        in and_then (init_vulkan env s2) (\<lambda>s.
           and_then (init_swapchain env s) (\<lambda>s.
           and_then (init_commands env s) (\<lambda>s.
           and_then (init_sync_structures env s) (\<lambda>s.
           Inr ((fst s)\<lparr>isInitialized := True\<rparr>, snd s))))))"

section \<open>VulkanEngine::cleanup and destroy\_swapchain (vk\_engine.cpp)\<close>

definition destroy_swapchain :: "state \<Rightarrow> state" where
  "destroy_swapchain s =
     (let e = fst s;
          w1 = emit (Release (VkDestroySwapchainKHR (device e) (swapchain e))) (snd s)
      in (e, fold (\<lambda>view. emit (Release (VkDestroyImageView (device e) view)))
               (swapchainImageViews e) w1))"

definition cleanup_frame :: "nat \<Rightarrow> state \<Rightarrow> state" where
  "cleanup_frame i s =
     (let e = fst s;
          w1 = emit (Release (VkDestroyCommandPool (device e) (commandPool (frames e i)))) (snd s);
          w2 = emit (Release (VkDestroyFence (device e) (renderFence (frames e i)))) w1;
          w3 = emit (Release (VkDestroySemaphore (device e) (renderSemaphore (frames e i)))) w2;
          w4 = emit (Release (VkDestroySemaphore (device e) (swapchainSemaphore (frames e i)))) w3;
          (w5, q') = flush (call_deletor e) (deletionQueue (frames e i)) w4
      in (update_frame i (\<lambda>f. f\<lparr>deletionQueue := q'\<rparr>) e, w5))"

definition flush_main :: "state \<Rightarrow> state" where
  "flush_main s =
     (let (w', q') = flush (call_deletor (fst s)) (mainDeletionQueue (fst s)) (snd s)
      in ((fst s)\<lparr>mainDeletionQueue := q'\<rparr>, w'))"

definition cleanup_body :: "state \<Rightarrow> state" where
  "cleanup_body s0 =
     (let s1 = do_call (VkDeviceWaitIdle (device (fst s0))) s0;
          s2 = fold cleanup_frame [0..<FRAME_OVERLAP] s1;
          s3 = flush_main s2;
          s4 = destroy_swapchain s3;
          s5 = do_call (Release (VkDestroySurfaceKHR (vkInstance (fst s4)) (surface (fst s4)))) s4;
          s6 = do_call (Release (VkDestroyDevice (device (fst s5)))) s5;
          s7 = do_call (Release (Vkb_destroy_debug_utils_messenger (vkInstance (fst s6))
                  (debugMessenger (fst s6)))) s6;
          s8 = do_call (Release (VkDestroyInstance (vkInstance (fst s7)))) s7
      in do_call (Release (SDL_DestroyWindow (window (fst s8)))) s8)"

definition cleanup :: "state \<Rightarrow> state" where
  "cleanup s =
     (let s' = (if isInitialized (fst s) then cleanup_body s else s)
      in (fst s', (snd s')\<lparr>loadedEngine := None\<rparr>))"

section \<open>VulkanEngine::run (vk\_engine.cpp)\<close>

datatype SDL_WindowEventID =
    SDL_WINDOWEVENT_MINIMIZED
  | SDL_WINDOWEVENT_RESTORED
  | SDL_WINDOWEVENT_OTHER

datatype SDL_Keycode = SDLK_SPACE | SDLK_ESCAPE | SDLK_OTHER

datatype SDL_Event =
    SDL_QUIT
  | SDL_WINDOWEVENT SDL_WindowEventID
  | SDL_KEYDOWN SDL_Keycode
  | SDL_OTHER_EVENT





section \<open>Vocabulary for the statements\<close>

text \<open>
  The calls a flush of the queue \<open>q\<close> makes on the engine \<open>e\<close>: those of the last
  deletor pushed first.
\<close>

definition deferred_calls :: "Engine \<Rightarrow> deletor DeletionQueue \<Rightarrow> call list" where
  "deferred_calls e q = concat (map (deletor_calls e) (rev (deletors q)))"

text \<open>The engine with the deletion queue of its current frame emptied.\<close>

definition flushed_engine :: "Engine \<Rightarrow> Engine" where
  "flushed_engine e =
     update_frame (current_frame_index e)
       (\<lambda>f. f\<lparr>deletionQueue := (deletionQueue f)\<lparr>deletors := []\<rparr>\<rparr>) e"

text \<open>
  The calls of a frame that follow \<^verbatim>\<open>vkBeginCommandBuffer\<close>, in program order: what is
  recorded into the command buffer up to \<^verbatim>\<open>vkEndCommandBuffer\<close>, then submission and
  presentation.
\<close>

definition recording_script :: "FrameEnv \<Rightarrow> Engine \<Rightarrow> call list" where
  "recording_script env e =
     (let cmd = mainCommandBuffer (get_current_frame e); img = imageHandle (drawImage e);
          swp = swapchainImages e ! unat (acquire_index env)
      in [Frame (Transition_image cmd img VK_IMAGE_LAYOUT_UNDEFINED VK_IMAGE_LAYOUT_GENERAL),
          Frame (VkCmdClearColorImage cmd img VK_IMAGE_LAYOUT_GENERAL),
          Frame (Transition_image cmd img VK_IMAGE_LAYOUT_GENERAL VK_IMAGE_LAYOUT_TRANSFER_SRC_OPTIMAL),
          Frame (Transition_image cmd swp VK_IMAGE_LAYOUT_UNDEFINED VK_IMAGE_LAYOUT_TRANSFER_DST_OPTIMAL),
          Frame (Copy_image_to_image cmd img swp
                   (VkExtent2D (width3 (imageExtent (drawImage e))) (height3 (imageExtent (drawImage e))))
                   (swapchainExtent e)),
          Frame (Transition_image cmd swp VK_IMAGE_LAYOUT_TRANSFER_DST_OPTIMAL VK_IMAGE_LAYOUT_PRESENT_SRC_KHR),
          Frame (VkEndCommandBuffer cmd)])"

definition submission_script :: "FrameEnv \<Rightarrow> Engine \<Rightarrow> call list" where
  "submission_script env e =
     (let f = get_current_frame e
      in [Frame (VkQueueSubmit2 (graphicsQueue e)
                   (VkSubmitInfo2
                      [VkSemaphoreSubmitInfo VK_PIPELINE_STAGE_2_COLOR_ATTACHMENT_OUTPUT_BIT_KHR
                         (swapchainSemaphore f)]
                      [VkSemaphoreSubmitInfo VK_PIPELINE_STAGE_2_ALL_COMMANDS_BIT (renderSemaphore f)]
                      [mainCommandBuffer f])
                   (renderFence f)),
          Frame (VkQueuePresentKHR (graphicsQueue e)
                   (VkPresentInfoKHR [swapchain e] [renderSemaphore f] [acquire_index env]))])"

definition frame_script :: "FrameEnv \<Rightarrow> Engine \<Rightarrow> call list" where
  "frame_script env e =
     [Frame (VkAcquireNextImageKHR (device e) (swapchain e) 1000000000
               (swapchainSemaphore (get_current_frame e)) VK_NULL_HANDLE),
      Frame (VkResetCommandBuffer (mainCommandBuffer (get_current_frame e)) 0),
      Frame (VkBeginCommandBuffer (mainCommandBuffer (get_current_frame e))
               VK_COMMAND_BUFFER_USAGE_ONE_TIME_SUBMIT_BIT)]
     @ recording_script env e @ submission_script env e"

subsection \<open>A concrete engine, world and environment\<close>

definition demo_frame :: "nat \<Rightarrow> FrameData" where
  "demo_frame i =
     \<lparr>commandPool = 20 + i, mainCommandBuffer = 22 + i, swapchainSemaphore = 26 + i,
      renderSemaphore = 28 + i, renderFence = 24 + i, deletionQueue = \<lparr>deletors = []\<rparr>\<rparr>"

definition demo_engine :: Engine where
  "demo_engine =
     \<lparr>isInitialized = True, frameNumber = 0, stop_rendering = False,
      windowExtent = VkExtent2D 1700 900, vkInstance = 2, debugMessenger = 3, chosenGPU = 5,
      device = 6, surface = 4, swapchain = 9, swapchainImageFormat = VK_FORMAT_B8G8R8A8_UNORM,
      swapchainImages = [10, 11, 12], swapchainImageViews = [13, 14, 15],
      swapchainExtent = VkExtent2D 1700 900, frames = demo_frame, graphicsQueue = 7,
      graphicsQueueFamily = 0, window = 1,
      mainDeletionQueue = \<lparr>deletors = [DestroyAllocatorFn, DestroyDrawImageFn]\<rparr>,
      allocator = 8,
      drawImage = \<lparr>imageHandle = 16, imageView = 18, allocation = 17,
                   imageExtent = VkExtent3D 1700 900 1, imageFormat = VK_FORMAT_R16G16B16A16_SFLOAT\<rparr>,
      drawExtent = VkExtent2D 0 0\<rparr>"

definition demo_world :: World where
  "demo_world =
     \<lparr>loadedEngine = Some 100, calls = [], signalled = (\<lambda>f. f = 24 \<or> f = 25), blocked_ns = 0\<rparr>"

definition demo_env :: FrameEnv where
  "demo_env =
     \<lparr>gpu_progress = GpuNeverSignals, reset_fences_result = VK_SUCCESS,
      acquire_result = VK_SUCCESS, acquire_index = 1, reset_command_buffer_result = VK_SUCCESS,
      begin_result = VK_SUCCESS, end_result = VK_SUCCESS, submit_result = VK_SUCCESS,
      present_result = VK_SUCCESS\<rparr>"

definition stalled_world :: World where
  "stalled_world = demo_world\<lparr>signalled := (\<lambda>f. False)\<rparr>"

definition out_of_date_env :: FrameEnv where
  "out_of_date_env = demo_env\<lparr>acquire_result := VK_ERROR_OUT_OF_DATE_KHR\<rparr>"

subsection \<open>Vocabulary for cleanup, initialisation and the main loop\<close>

fun is_destroy_swapchain :: "call \<Rightarrow> bool" where
  "is_destroy_swapchain (Release (VkDestroySwapchainKHR dev chain)) = True"
| "is_destroy_swapchain c = False"

fun is_destroy_image_view :: "call \<Rightarrow> bool" where
  "is_destroy_image_view (Release (VkDestroyImageView dev view)) = True"
| "is_destroy_image_view c = False"

definition views_before_chain :: "call list \<Rightarrow> bool" where
  "views_before_chain cs =
     (filter is_destroy_image_view (dropWhile (\<lambda>c. \<not> is_destroy_swapchain c) cs) = [])"

definition frame_release_calls :: "Engine \<Rightarrow> nat \<Rightarrow> call list" where
  "frame_release_calls e i =
     [Release (VkDestroyCommandPool (device e) (commandPool (frames e i))),
      Release (VkDestroyFence (device e) (renderFence (frames e i))),
      Release (VkDestroySemaphore (device e) (renderSemaphore (frames e i))),
      Release (VkDestroySemaphore (device e) (swapchainSemaphore (frames e i)))]"

definition fresh_frame :: FrameData where
  "fresh_frame =
     \<lparr>commandPool = 0, mainCommandBuffer = 0, swapchainSemaphore = 0, renderSemaphore = 0,
      renderFence = 0, deletionQueue = \<lparr>deletors = []\<rparr>\<rparr>"

definition fresh_engine :: Engine where
  "fresh_engine =
     \<lparr>isInitialized = False, frameNumber = 0, stop_rendering = False,
      windowExtent = VkExtent2D 1700 900, vkInstance = 0, debugMessenger = 0, chosenGPU = 0,
      device = 0, surface = 0, swapchain = 0, swapchainImageFormat = VK_FORMAT_B8G8R8A8_UNORM,
      swapchainImages = [], swapchainImageViews = [],
      swapchainExtent = VkExtent2D 0 0, frames = (\<lambda>i. fresh_frame), graphicsQueue = 0,
      graphicsQueueFamily = 0, window = 0,
      mainDeletionQueue = \<lparr>deletors = []\<rparr>,
      allocator = 0,
      drawImage = \<lparr>imageHandle = 0, imageView = 0, allocation = 0,
                   imageExtent = VkExtent3D 0 0 0, imageFormat = VK_FORMAT_B8G8R8A8_UNORM\<rparr>,
      drawExtent = VkExtent2D 0 0\<rparr>"

definition fresh_world :: World where
  "fresh_world = \<lparr>loadedEngine = None, calls = [], signalled = (\<lambda>f. False), blocked_ns = 0\<rparr>"

definition demo_init_env :: InitEnv where
  "demo_init_env =
     \<lparr>sdl_window = 1, vkb_instance = Some (2, 3), sdl_surface = 4, vkb_physical_device = Some 5,
      vkb_device = Some 6, vkb_queue = Some 7, vkb_queue_index = Some 0, vma_allocator = 8,
      vkb_swapchain = Some (9, VkExtent2D 1700 900), vkb_images = Some [10, 11, 12],
      vkb_image_views = Some [13, 14, 15], vma_image = (16, 17),
      create_image_view = (VK_SUCCESS, 18),
      create_command_pool = (\<lambda>i. (VK_SUCCESS, 20 + i)),
      allocate_command_buffers = (\<lambda>i. (VK_SUCCESS, 22 + i)),
      create_fence = (\<lambda>i. (VK_SUCCESS, 24 + i)),
      create_swapchain_semaphore = (\<lambda>i. (VK_SUCCESS, 26 + i)),
      create_render_semaphore = (\<lambda>i. (VK_SUCCESS, 28 + i))\<rparr>"

definition cleaned_engine :: "Engine \<Rightarrow> Engine" where
  "cleaned_engine e =
     (update_frame 1 (\<lambda>f. f\<lparr>deletionQueue := (deletionQueue f)\<lparr>deletors := []\<rparr>\<rparr>)
        (update_frame 0 (\<lambda>f. f\<lparr>deletionQueue := (deletionQueue f)\<lparr>deletors := []\<rparr>\<rparr>) e))
     \<lparr>mainDeletionQueue := (mainDeletionQueue e)\<lparr>deletors := []\<rparr>\<rparr>"

definition ready_state :: state where
  "ready_state = outcome_state (init demo_init_env 100 (fresh_engine, fresh_world))"








section \<open>Properties of the DeletionQueue\<close>

lemma flush_loop_take:
  "n \<le> length ds \<Longrightarrow> flush_loop call ds n w = fold call (rev (take n ds)) w"
proof (induction n arbitrary: w)
  case 0
  show ?case by simp
next
  case (Suc n)
  then have "take (Suc n) ds = take n ds @ [ds ! n]"
    by (simp add: take_Suc_conv_app_nth)
  with Suc show ?case by simp
qed

lemma flush_fold: "flush call q w = (fold call (rev (deletors q)) w, q\<lparr>deletors := []\<rparr>)"
  by (simp add: flush_def flush_loop_take)

lemma deletors_push_all: "deletors (push_all q fs) = deletors q @ fs"
  unfolding push_all_def by (induction fs arbitrary: q) (simp_all add: push_function_def)

lemma push_all_empty: "push_all \<lparr>deletors = []\<rparr> fs = \<lparr>deletors = fs\<rparr>"
  using deletors_push_all [of "\<lparr>deletors = []\<rparr>" fs] by (cases "push_all \<lparr>deletors = []\<rparr> fs") simp

lemma fold_log_action: "fold log_action xs log = log @ xs"
  by (induction xs arbitrary: log) (simp_all add: log_action_def)

text \<open>
  Claim C2. After any sequence of pushes onto a fresh queue, one flush runs the pushed
  actions in reverse push order (last pushed first): for arbitrary actions the effect
  is the composition in that order, and for actions that log their own name the log
  is exactly the reversed push sequence, so each action ran exactly once. The queue
  is empty afterwards, a second flush leaves the world unchanged, and so does a flush
  of a queue nothing was ever pushed to.
\<close>

theorem C2_flush_reverse_order:
  "flush call (push_all \<lparr>deletors = []\<rparr> fs) w = (fold call (rev fs) w, \<lparr>deletors = []\<rparr>)
   \<and> flush log_action (push_all \<lparr>deletors = []\<rparr> names) [] = (rev names, \<lparr>deletors = []\<rparr>)
   \<and> flush call (snd (flush call (push_all \<lparr>deletors = []\<rparr> fs) w)) w' = (w', \<lparr>deletors = []\<rparr>)
   \<and> flush call \<lparr>deletors = []\<rparr> w = (w, \<lparr>deletors = []\<rparr>)"
  by (simp add: flush_fold push_all_empty fold_log_action)

section \<open>One call of draw, step by step\<close>

lemma fold_emit: "fold emit cs w = w\<lparr>calls := calls w @ cs\<rparr>"
  by (induction cs arbitrary: w) (simp_all add: emit_def)

lemma fold_call_deletor:
  "fold (call_deletor e) ds w = w\<lparr>calls := calls w @ concat (map (deletor_calls e) ds)\<rparr>"
  by (induction ds arbitrary: w) (simp_all add: call_deletor_def fold_emit)

lemma flush_call_deletor:
  "flush (call_deletor e) q w = (w\<lparr>calls := calls w @ deferred_calls e q\<rparr>, q\<lparr>deletors := []\<rparr>)"
  by (simp add: flush_fold fold_call_deletor deferred_calls_def)

lemma flushed_engine_fields:
  "frameNumber (flushed_engine e) = frameNumber e"
  "device (flushed_engine e) = device e"
  "swapchain (flushed_engine e) = swapchain e"
  "graphicsQueue (flushed_engine e) = graphicsQueue e"
  "drawImage (flushed_engine e) = drawImage e"
  "drawExtent (flushed_engine e) = drawExtent e"
  "swapchainImages (flushed_engine e) = swapchainImages e"
  "swapchainExtent (flushed_engine e) = swapchainExtent e"
  "stop_rendering (flushed_engine e) = stop_rendering e"
  "current_frame_index (flushed_engine e) = current_frame_index e"
  by (simp_all add: flushed_engine_def update_frame_def current_frame_index_def)

lemma flushed_engine_frame:
  "renderFence (get_current_frame (flushed_engine e)) = renderFence (get_current_frame e)"
  "mainCommandBuffer (get_current_frame (flushed_engine e)) = mainCommandBuffer (get_current_frame e)"
  "swapchainSemaphore (get_current_frame (flushed_engine e)) = swapchainSemaphore (get_current_frame e)"
  "renderSemaphore (get_current_frame (flushed_engine e)) = renderSemaphore (get_current_frame e)"
  by (simp_all add: flushed_engine_def update_frame_def current_frame_index_def get_current_frame_def)

lemma drawExtent_frame: "get_current_frame (e\<lparr>drawExtent := x\<rparr>) = get_current_frame e"
  by (simp add: get_current_frame_def current_frame_index_def)

lemma wait_render_fence_eq:
  "wait_render_fence env (e, w) =
     VK_CHECK (fence_wait_result w (gpu_progress env) (renderFence (get_current_frame e)) 1000000000)
       (e, w\<lparr>calls := calls w @
                [Frame (VkWaitForFences (device e) (renderFence (get_current_frame e)) True 1000000000)],
             signalled := (signalled w)(renderFence (get_current_frame e) :=
                (fence_wait_result w (gpu_progress env) (renderFence (get_current_frame e)) 1000000000
                   = VK_SUCCESS)),
             blocked_ns := blocked_ns w +
                fence_wait_time w (gpu_progress env) (renderFence (get_current_frame e)) 1000000000\<rparr>)"
  by (simp add: wait_render_fence_def vkWaitForFences_def emit_def Let_def)

lemma flush_current_frame_eq:
  "flush_current_frame (e, w) =
     (flushed_engine e, w\<lparr>calls := calls w @ deferred_calls e (deletionQueue (get_current_frame e))\<rparr>)"
  by (simp add: flush_current_frame_def flush_call_deletor flushed_engine_def update_frame_def
      get_current_frame_def Let_def)

lemma reset_render_fence_eq:
  "reset_render_fence env (e, w) =
     VK_CHECK (reset_fences_result env)
       (e, w\<lparr>calls := calls w @ [Frame (VkResetFences (device e) (renderFence (get_current_frame e)))],
             signalled := (if reset_fences_result env = VK_SUCCESS
                           then (signalled w)(renderFence (get_current_frame e) := False)
                           else signalled w)\<rparr>)"
  by (simp add: reset_render_fence_def vkResetFences_def emit_def Let_def)

lemma vk_call_eq: "vk_call c r (e, w) = VK_CHECK r (e, w\<lparr>calls := calls w @ [c]\<rparr>)"
  by (simp add: vk_call_def emit_def)

lemma do_call_eq: "do_call c (e, w) = (e, w\<lparr>calls := calls w @ [c]\<rparr>)"
  by (simp add: do_call_def emit_def)

lemma record_commands_eq:
  "record_commands env (e, w) =
    (let cmd = mainCommandBuffer (get_current_frame e); img = imageHandle (drawImage e) in
     if unat (acquire_index env) < length (swapchainImages e)
     then VK_CHECK (end_result env)
        (e, w\<lparr>calls := calls w @
          [Frame (Transition_image cmd img VK_IMAGE_LAYOUT_UNDEFINED VK_IMAGE_LAYOUT_GENERAL),
           Frame (VkCmdClearColorImage cmd img VK_IMAGE_LAYOUT_GENERAL),
           Frame (Transition_image cmd img VK_IMAGE_LAYOUT_GENERAL VK_IMAGE_LAYOUT_TRANSFER_SRC_OPTIMAL),
           Frame (Transition_image cmd (swapchainImages e ! unat (acquire_index env))
                    VK_IMAGE_LAYOUT_UNDEFINED VK_IMAGE_LAYOUT_TRANSFER_DST_OPTIMAL),
           Frame (Copy_image_to_image cmd img (swapchainImages e ! unat (acquire_index env))
                    (drawExtent e) (swapchainExtent e)),
           Frame (Transition_image cmd (swapchainImages e ! unat (acquire_index env))
                    VK_IMAGE_LAYOUT_TRANSFER_DST_OPTIMAL VK_IMAGE_LAYOUT_PRESENT_SRC_KHR),
           Frame (VkEndCommandBuffer cmd)]\<rparr>)
     else Inl (VectorIndexOutOfRange,
        (e, w\<lparr>calls := calls w @
          [Frame (Transition_image cmd img VK_IMAGE_LAYOUT_UNDEFINED VK_IMAGE_LAYOUT_GENERAL),
           Frame (VkCmdClearColorImage cmd img VK_IMAGE_LAYOUT_GENERAL),
           Frame (Transition_image cmd img VK_IMAGE_LAYOUT_GENERAL
                    VK_IMAGE_LAYOUT_TRANSFER_SRC_OPTIMAL)]\<rparr>)))"
  by (simp add: record_commands_def draw_background_def do_call_eq vk_call_eq swapchain_image_at_def
      Let_def)

lemmas draw_step_eqs =
  wait_render_fence_eq flush_current_frame_eq reset_render_fence_eq vk_call_eq do_call_eq
  record_commands_eq acquire_next_image_def reset_command_buffer_def begin_command_buffer_def
  set_draw_extent_def submit_commands_def present_image_def increase_frame_number_def
  flushed_engine_fields flushed_engine_frame drawExtent_frame
  command_buffer_begin_info_def command_buffer_submit_info_def semaphore_submit_info_def
  submit_info_def

lemmas script_defs = frame_script_def recording_script_def submission_script_def

lemma draw_success:
  assumes "fence_wait_result w (gpu_progress env) (renderFence (get_current_frame e)) 1000000000
             = VK_SUCCESS"
    and "reset_fences_result env = VK_SUCCESS"
    and "acquire_result env = VK_SUCCESS"
    and "reset_command_buffer_result env = VK_SUCCESS"
    and "begin_result env = VK_SUCCESS"
    and "unat (acquire_index env) < length (swapchainImages e)"
    and "end_result env = VK_SUCCESS"
    and "submit_result env = VK_SUCCESS"
    and "present_result env = VK_SUCCESS"
  shows "draw env (e, w) =
     Inr ((flushed_engine e)\<lparr>drawExtent := VkExtent2D (width3 (imageExtent (drawImage e)))
                                                        (height3 (imageExtent (drawImage e))),
                               frameNumber := frameNumber e + 1\<rparr>,
          w\<lparr>calls := calls w @
                 [Frame (VkWaitForFences (device e) (renderFence (get_current_frame e)) True 1000000000)] @
                 deferred_calls e (deletionQueue (get_current_frame e)) @
                 [Frame (VkResetFences (device e) (renderFence (get_current_frame e)))] @
                 frame_script env e,
             signalled := (signalled w)(renderFence (get_current_frame e) := False),
             blocked_ns := blocked_ns w +
                 fence_wait_time w (gpu_progress env) (renderFence (get_current_frame e)) 1000000000\<rparr>)"
  using assms
  by (simp add: draw_def and_then_def VK_CHECK_def draw_step_eqs script_defs Let_def)

lemma draw_calls_prefix:
  "calls (snd (outcome_state (draw env (e, w)))) =
     calls w @ calls_since w (snd (outcome_state (draw env (e, w))))
   \<and> prefix (calls_since w (snd (outcome_state (draw env (e, w)))))
        ([Frame (VkWaitForFences (device e) (renderFence (get_current_frame e)) True 1000000000)] @
         deferred_calls e (deletionQueue (get_current_frame e)) @
         [Frame (VkResetFences (device e) (renderFence (get_current_frame e)))] @
         frame_script env e)"
  by (simp add: draw_def and_then_def VK_CHECK_def draw_step_eqs script_defs Let_def
      outcome_state_def calls_since_def)

section \<open>Arithmetic of the frame counter\<close>

lemma sint_succ:
  assumes "sint (x::32 word) < 2147483647"
  shows "sint (x + 1) = sint x + 1"
proof -
  have lo: "- (2 ^ 31) \<le> sint x"
    using sint_ge [of x] by simp
  have "sint (x + 1) = signed_take_bit 31 (sint x + 1)"
    by (simp add: sint_word_ariths)
  also have "\<dots> = sint x + 1"
    by (rule signed_take_bit_int_eq_self) (use lo assms in simp_all)
  finally show ?thesis .
qed


section \<open>The concrete engine, evaluated\<close>

lemma demo_engine_fields:
  "device demo_engine = 6" "swapchain demo_engine = 9" "graphicsQueue demo_engine = 7"
  "frameNumber demo_engine = 0" "swapchainImages demo_engine = [10, 11, 12]"
  "swapchainExtent demo_engine = VkExtent2D 1700 900"
  "imageHandle (drawImage demo_engine) = 16"
  "imageExtent (drawImage demo_engine) = VkExtent3D 1700 900 1"
  "stop_rendering demo_engine = False" "isInitialized demo_engine = True"
  by (simp_all add: demo_engine_def)

lemma demo_frame_fields:
  "renderFence (get_current_frame demo_engine) = 24"
  "mainCommandBuffer (get_current_frame demo_engine) = 22"
  "swapchainSemaphore (get_current_frame demo_engine) = 26"
  "renderSemaphore (get_current_frame demo_engine) = 28"
  "deletionQueue (get_current_frame demo_engine) = \<lparr>deletors = []\<rparr>"
  by (simp_all add: get_current_frame_def current_frame_index_def demo_engine_def demo_frame_def
      FRAME_OVERLAP_def)

lemma demo_world_fields:
  "calls demo_world = []" "signalled demo_world f = (f = 24 \<or> f = 25)"
  "blocked_ns demo_world = 0" "loadedEngine demo_world = Some 100"
  "calls stalled_world = []" "signalled stalled_world f = False"
  by (simp_all add: demo_world_def stalled_world_def)

lemma demo_env_fields:
  "gpu_progress demo_env = GpuNeverSignals" "reset_fences_result demo_env = VK_SUCCESS"
  "acquire_result demo_env = VK_SUCCESS" "acquire_index demo_env = 1"
  "reset_command_buffer_result demo_env = VK_SUCCESS" "begin_result demo_env = VK_SUCCESS"
  "end_result demo_env = VK_SUCCESS" "submit_result demo_env = VK_SUCCESS"
  "present_result demo_env = VK_SUCCESS"
  by (simp_all add: demo_env_def)

lemmas demo_simps =
  demo_engine_fields demo_frame_fields demo_world_fields demo_env_fields
  fence_wait_result_def fence_wait_time_def deferred_calls_def VK_NULL_HANDLE_def
  VK_COMMAND_BUFFER_USAGE_ONE_TIME_SUBMIT_BIT_def recording_script_def submission_script_def

lemma out_of_date_env_fields:
  "gpu_progress out_of_date_env = GpuNeverSignals" "reset_fences_result out_of_date_env = VK_SUCCESS"
  "acquire_result out_of_date_env = VK_ERROR_OUT_OF_DATE_KHR"
  by (simp_all add: out_of_date_env_def demo_env_def)

lemma draw_fence_reset:
  "fence_wait_result w (gpu_progress env) (renderFence (get_current_frame e)) 1000000000 = VK_SUCCESS \<Longrightarrow>
   reset_fences_result env = VK_SUCCESS \<Longrightarrow>
   \<not> signalled (snd (outcome_state (draw env (e, w)))) (renderFence (get_current_frame e))"
  by (simp add: draw_def and_then_def VK_CHECK_def draw_step_eqs Let_def outcome_state_def)

section \<open>Claim C1: an out-of-date acquisition\<close>

text \<open>
  Claim C1, as stated, fails. With the fence signalled and
  \<^verbatim>\<open>vkAcquireNextImageKHR\<close> answering \<^verbatim>\<open>VK_ERROR_OUT_OF_DATE_KHR\<close>, \<^verbatim>\<open>draw()\<close> ends the
  process in \<^verbatim>\<open>VK_CHECK\<close>: the acquisition is the last call made, and there is no
  device-idle wait, no destruction of the swapchain and no second acquisition.
\<close>

theorem C1_out_of_date_counterexample:
  "draw out_of_date_env (demo_engine, demo_world) =
     Inl (VkCheckFailed VK_ERROR_OUT_OF_DATE_KHR,
          outcome_state (draw out_of_date_env (demo_engine, demo_world)))
   \<and> calls (snd (outcome_state (draw out_of_date_env (demo_engine, demo_world)))) =
       [Frame (VkWaitForFences 6 24 True 1000000000),
        Frame (VkResetFences 6 24),
        Frame (VkAcquireNextImageKHR 6 9 1000000000 26 0)]
   \<and> VkDeviceWaitIdle 6 \<notin> set (calls (snd (outcome_state (draw out_of_date_env (demo_engine, demo_world)))))
   \<and> Release (VkDestroySwapchainKHR 6 9)
        \<notin> set (calls (snd (outcome_state (draw out_of_date_env (demo_engine, demo_world)))))"
  by (simp add: draw_def and_then_def VK_CHECK_def draw_step_eqs Let_def outcome_state_def
      demo_simps out_of_date_env_fields)

text \<open>
  Claim C1, amended. When the fence wait and the fence reset succeed and the
  acquisition returns anything but success (out-of-date included), \<^verbatim>\<open>draw()\<close> ends the
  process with that result right after the acquisition call: the calls made are the
  fence wait, the deferred releases of the slot, the fence reset and the one
  acquisition; nothing is recorded, the swapchain is neither destroyed nor rebuilt,
  and the frame counter keeps its value.
\<close>

theorem C1_acquire_failure_is_fatal:
  assumes "fence_wait_result w (gpu_progress env) (renderFence (get_current_frame e)) 1000000000
             = VK_SUCCESS"
    and "reset_fences_result env = VK_SUCCESS"
    and "acquire_result env \<noteq> VK_SUCCESS"
  shows "draw env (e, w) =
     Inl (VkCheckFailed (acquire_result env),
          (flushed_engine e,
           w\<lparr>calls := calls w @
                [Frame (VkWaitForFences (device e) (renderFence (get_current_frame e)) True 1000000000)] @
                deferred_calls e (deletionQueue (get_current_frame e)) @
                [Frame (VkResetFences (device e) (renderFence (get_current_frame e))),
                 Frame (VkAcquireNextImageKHR (device e) (swapchain e) 1000000000
                          (swapchainSemaphore (get_current_frame e)) VK_NULL_HANDLE)],
             signalled := (signalled w)(renderFence (get_current_frame e) := False),
             blocked_ns := blocked_ns w +
                fence_wait_time w (gpu_progress env) (renderFence (get_current_frame e)) 1000000000\<rparr>))
   \<and> frameNumber (flushed_engine e) = frameNumber e"
  using assms
  by (simp add: draw_def and_then_def VK_CHECK_def draw_step_eqs Let_def)

theorem C1_acquire_failure_is_fatal_witness:
  "draw out_of_date_env (demo_engine, demo_world) =
     Inl (VkCheckFailed VK_ERROR_OUT_OF_DATE_KHR,
          (flushed_engine demo_engine,
           demo_world\<lparr>calls :=
                [Frame (VkWaitForFences 6 24 True 1000000000),
                 Frame (VkResetFences 6 24),
                 Frame (VkAcquireNextImageKHR 6 9 1000000000 26 0)],
             signalled := (signalled demo_world)(24 := False),
             blocked_ns := 0\<rparr>))
   \<and> frameNumber (flushed_engine demo_engine) = 0"
  using C1_acquire_failure_is_fatal [of demo_world out_of_date_env demo_engine]
  by (simp add: demo_simps out_of_date_env_fields)

section \<open>Claim C4: the fence wait comes before the command buffer is reused\<close>

text \<open>
  Claim C4. In every call of \<^verbatim>\<open>draw()\<close>: when the wait on the slot's fence (bound
  \<open>10\<^sup>9\<close> ns) does not return success, the wait is the only call made, so the command
  buffer is neither reset nor recorded into; in every case the calls made are an
  initial part of the sequence fence wait, deferred releases of the slot's
  DeletionQueue, fence reset, image acquisition, command buffer reset, begin,
  recording, submission; and once wait and reset have succeeded the fence is
  unsignalled.
\<close>

theorem C4_fence_wait_before_reuse:
  "(fence_wait_result w (gpu_progress env) (renderFence (get_current_frame e)) 1000000000 \<noteq> VK_SUCCESS \<longrightarrow>
      calls_since w (snd (outcome_state (draw env (e, w)))) =
        [Frame (VkWaitForFences (device e) (renderFence (get_current_frame e)) True 1000000000)])
   \<and> calls (snd (outcome_state (draw env (e, w)))) =
        calls w @ calls_since w (snd (outcome_state (draw env (e, w))))
   \<and> prefix (calls_since w (snd (outcome_state (draw env (e, w)))))
        ([Frame (VkWaitForFences (device e) (renderFence (get_current_frame e)) True 1000000000)] @
         deferred_calls e (deletionQueue (get_current_frame e)) @
         [Frame (VkResetFences (device e) (renderFence (get_current_frame e))),
          Frame (VkAcquireNextImageKHR (device e) (swapchain e) 1000000000
                   (swapchainSemaphore (get_current_frame e)) VK_NULL_HANDLE),
          Frame (VkResetCommandBuffer (mainCommandBuffer (get_current_frame e)) 0),
          Frame (VkBeginCommandBuffer (mainCommandBuffer (get_current_frame e))
                   VK_COMMAND_BUFFER_USAGE_ONE_TIME_SUBMIT_BIT)] @
         recording_script env e @ submission_script env e)
   \<and> (fence_wait_result w (gpu_progress env) (renderFence (get_current_frame e)) 1000000000 = VK_SUCCESS
        \<and> reset_fences_result env = VK_SUCCESS \<longrightarrow>
      \<not> signalled (snd (outcome_state (draw env (e, w)))) (renderFence (get_current_frame e)))"
proof -
  have "fence_wait_result w (gpu_progress env) (renderFence (get_current_frame e)) 1000000000 \<noteq> VK_SUCCESS \<Longrightarrow>
      calls_since w (snd (outcome_state (draw env (e, w)))) =
        [Frame (VkWaitForFences (device e) (renderFence (get_current_frame e)) True 1000000000)]"
    by (simp add: draw_def and_then_def VK_CHECK_def wait_render_fence_eq outcome_state_def
        calls_since_def)
  then show ?thesis
    using draw_calls_prefix [of env e w] draw_fence_reset [of w env e]
    by (simp add: frame_script_def)
qed

theorem C4_fence_wait_before_reuse_witness:
  "calls_since stalled_world (snd (outcome_state (draw demo_env (demo_engine, stalled_world)))) =
     [Frame (VkWaitForFences 6 24 True 1000000000)]
   \<and> prefix (calls_since demo_world (snd (outcome_state (draw demo_env (demo_engine, demo_world)))))
       [Frame (VkWaitForFences 6 24 True 1000000000),
        Frame (VkResetFences 6 24),
        Frame (VkAcquireNextImageKHR 6 9 1000000000 26 0),
        Frame (VkResetCommandBuffer 22 0),
        Frame (VkBeginCommandBuffer 22 1),
        Frame (Transition_image 22 16 VK_IMAGE_LAYOUT_UNDEFINED VK_IMAGE_LAYOUT_GENERAL),
        Frame (VkCmdClearColorImage 22 16 VK_IMAGE_LAYOUT_GENERAL),
        Frame (Transition_image 22 16 VK_IMAGE_LAYOUT_GENERAL VK_IMAGE_LAYOUT_TRANSFER_SRC_OPTIMAL),
        Frame (Transition_image 22 11 VK_IMAGE_LAYOUT_UNDEFINED VK_IMAGE_LAYOUT_TRANSFER_DST_OPTIMAL),
        Frame (Copy_image_to_image 22 16 11 (VkExtent2D 1700 900) (VkExtent2D 1700 900)),
        Frame (Transition_image 22 11 VK_IMAGE_LAYOUT_TRANSFER_DST_OPTIMAL VK_IMAGE_LAYOUT_PRESENT_SRC_KHR),
        Frame (VkEndCommandBuffer 22),
        Frame (VkQueueSubmit2 7
          (VkSubmitInfo2 [VkSemaphoreSubmitInfo VK_PIPELINE_STAGE_2_COLOR_ATTACHMENT_OUTPUT_BIT_KHR 26]
             [VkSemaphoreSubmitInfo VK_PIPELINE_STAGE_2_ALL_COMMANDS_BIT 28] [22]) 24),
        Frame (VkQueuePresentKHR 7 (VkPresentInfoKHR [9] [28] [1]))]
   \<and> \<not> signalled (snd (outcome_state (draw demo_env (demo_engine, demo_world)))) 24"
  using C4_fence_wait_before_reuse [of stalled_world demo_env demo_engine]
    C4_fence_wait_before_reuse [of demo_world demo_env demo_engine]
  by (simp add: demo_simps)

section \<open>Claim C6: what is recorded\<close>

text \<open>
  Claim C6. In a frame that reaches the record phase (the calls before it succeed and
  the acquired index is inside the image vector), the calls from
  \<^verbatim>\<open>vkBeginCommandBuffer\<close> to \<^verbatim>\<open>vkEndCommandBuffer\<close> are exactly, in order: begin with the
  one-time-submit flag; draw image from undefined to general; the clear of
  \<^verbatim>\<open>draw_background\<close>; draw image from general to transfer-source; the acquired
  swapchain image from undefined to transfer-destination; the copy of the draw image
  into the swapchain image; the swapchain image to present-source; end. Only
  submission and presentation can follow.
\<close>

theorem C6_record_phase:
  assumes "fence_wait_result w (gpu_progress env) (renderFence (get_current_frame e)) 1000000000
             = VK_SUCCESS"
    and "reset_fences_result env = VK_SUCCESS"
    and "acquire_result env = VK_SUCCESS"
    and "reset_command_buffer_result env = VK_SUCCESS"
    and "begin_result env = VK_SUCCESS"
    and "unat (acquire_index env) < length (swapchainImages e)"
  shows "prefix
     ([Frame (VkWaitForFences (device e) (renderFence (get_current_frame e)) True 1000000000)] @
      deferred_calls e (deletionQueue (get_current_frame e)) @
      [Frame (VkResetFences (device e) (renderFence (get_current_frame e))),
       Frame (VkAcquireNextImageKHR (device e) (swapchain e) 1000000000
                (swapchainSemaphore (get_current_frame e)) VK_NULL_HANDLE),
       Frame (VkResetCommandBuffer (mainCommandBuffer (get_current_frame e)) 0)] @
      [Frame (VkBeginCommandBuffer (mainCommandBuffer (get_current_frame e))
                VK_COMMAND_BUFFER_USAGE_ONE_TIME_SUBMIT_BIT),
       Frame (Transition_image (mainCommandBuffer (get_current_frame e)) (imageHandle (drawImage e))
                VK_IMAGE_LAYOUT_UNDEFINED VK_IMAGE_LAYOUT_GENERAL),
       Frame (VkCmdClearColorImage (mainCommandBuffer (get_current_frame e)) (imageHandle (drawImage e))
                VK_IMAGE_LAYOUT_GENERAL),
       Frame (Transition_image (mainCommandBuffer (get_current_frame e)) (imageHandle (drawImage e))
                VK_IMAGE_LAYOUT_GENERAL VK_IMAGE_LAYOUT_TRANSFER_SRC_OPTIMAL),
       Frame (Transition_image (mainCommandBuffer (get_current_frame e))
                (swapchainImages e ! unat (acquire_index env))
                VK_IMAGE_LAYOUT_UNDEFINED VK_IMAGE_LAYOUT_TRANSFER_DST_OPTIMAL),
       Frame (Copy_image_to_image (mainCommandBuffer (get_current_frame e)) (imageHandle (drawImage e))
                (swapchainImages e ! unat (acquire_index env))
                (VkExtent2D (width3 (imageExtent (drawImage e))) (height3 (imageExtent (drawImage e))))
                (swapchainExtent e)),
       Frame (Transition_image (mainCommandBuffer (get_current_frame e))
                (swapchainImages e ! unat (acquire_index env))
                VK_IMAGE_LAYOUT_TRANSFER_DST_OPTIMAL VK_IMAGE_LAYOUT_PRESENT_SRC_KHR),
       Frame (VkEndCommandBuffer (mainCommandBuffer (get_current_frame e)))])
     (calls_since w (snd (outcome_state (draw env (e, w)))))
   \<and> prefix (calls_since w (snd (outcome_state (draw env (e, w)))))
     ([Frame (VkWaitForFences (device e) (renderFence (get_current_frame e)) True 1000000000)] @
      deferred_calls e (deletionQueue (get_current_frame e)) @
      [Frame (VkResetFences (device e) (renderFence (get_current_frame e))),
       Frame (VkAcquireNextImageKHR (device e) (swapchain e) 1000000000
                (swapchainSemaphore (get_current_frame e)) VK_NULL_HANDLE),
       Frame (VkResetCommandBuffer (mainCommandBuffer (get_current_frame e)) 0),
       Frame (VkBeginCommandBuffer (mainCommandBuffer (get_current_frame e))
                VK_COMMAND_BUFFER_USAGE_ONE_TIME_SUBMIT_BIT)] @
      recording_script env e @ submission_script env e)"
proof -
  have "prefix
     ([Frame (VkWaitForFences (device e) (renderFence (get_current_frame e)) True 1000000000)] @
      deferred_calls e (deletionQueue (get_current_frame e)) @
      [Frame (VkResetFences (device e) (renderFence (get_current_frame e))),
       Frame (VkAcquireNextImageKHR (device e) (swapchain e) 1000000000
                (swapchainSemaphore (get_current_frame e)) VK_NULL_HANDLE),
       Frame (VkResetCommandBuffer (mainCommandBuffer (get_current_frame e)) 0),
       Frame (VkBeginCommandBuffer (mainCommandBuffer (get_current_frame e))
                VK_COMMAND_BUFFER_USAGE_ONE_TIME_SUBMIT_BIT)] @
      recording_script env e)
     (calls_since w (snd (outcome_state (draw env (e, w)))))"
    using assms
    by (simp add: draw_def and_then_def VK_CHECK_def draw_step_eqs script_defs Let_def
        outcome_state_def calls_since_def)
  then show ?thesis
    using draw_calls_prefix [of env e w] by (simp add: script_defs Let_def)
qed

theorem C6_record_phase_witness:
  "prefix
       [Frame (VkWaitForFences 6 24 True 1000000000),
        Frame (VkResetFences 6 24),
        Frame (VkAcquireNextImageKHR 6 9 1000000000 26 0),
        Frame (VkResetCommandBuffer 22 0),
        Frame (VkBeginCommandBuffer 22 1),
        Frame (Transition_image 22 16 VK_IMAGE_LAYOUT_UNDEFINED VK_IMAGE_LAYOUT_GENERAL),
        Frame (VkCmdClearColorImage 22 16 VK_IMAGE_LAYOUT_GENERAL),
        Frame (Transition_image 22 16 VK_IMAGE_LAYOUT_GENERAL VK_IMAGE_LAYOUT_TRANSFER_SRC_OPTIMAL),
        Frame (Transition_image 22 11 VK_IMAGE_LAYOUT_UNDEFINED VK_IMAGE_LAYOUT_TRANSFER_DST_OPTIMAL),
        Frame (Copy_image_to_image 22 16 11 (VkExtent2D 1700 900) (VkExtent2D 1700 900)),
        Frame (Transition_image 22 11 VK_IMAGE_LAYOUT_TRANSFER_DST_OPTIMAL VK_IMAGE_LAYOUT_PRESENT_SRC_KHR),
        Frame (VkEndCommandBuffer 22)]
       (calls_since demo_world (snd (outcome_state (draw demo_env (demo_engine, demo_world)))))
   \<and> prefix (calls_since demo_world (snd (outcome_state (draw demo_env (demo_engine, demo_world)))))
       [Frame (VkWaitForFences 6 24 True 1000000000),
        Frame (VkResetFences 6 24),
        Frame (VkAcquireNextImageKHR 6 9 1000000000 26 0),
        Frame (VkResetCommandBuffer 22 0),
        Frame (VkBeginCommandBuffer 22 1),
        Frame (Transition_image 22 16 VK_IMAGE_LAYOUT_UNDEFINED VK_IMAGE_LAYOUT_GENERAL),
        Frame (VkCmdClearColorImage 22 16 VK_IMAGE_LAYOUT_GENERAL),
        Frame (Transition_image 22 16 VK_IMAGE_LAYOUT_GENERAL VK_IMAGE_LAYOUT_TRANSFER_SRC_OPTIMAL),
        Frame (Transition_image 22 11 VK_IMAGE_LAYOUT_UNDEFINED VK_IMAGE_LAYOUT_TRANSFER_DST_OPTIMAL),
        Frame (Copy_image_to_image 22 16 11 (VkExtent2D 1700 900) (VkExtent2D 1700 900)),
        Frame (Transition_image 22 11 VK_IMAGE_LAYOUT_TRANSFER_DST_OPTIMAL VK_IMAGE_LAYOUT_PRESENT_SRC_KHR),
        Frame (VkEndCommandBuffer 22),
        Frame (VkQueueSubmit2 7
          (VkSubmitInfo2 [VkSemaphoreSubmitInfo VK_PIPELINE_STAGE_2_COLOR_ATTACHMENT_OUTPUT_BIT_KHR 26]
             [VkSemaphoreSubmitInfo VK_PIPELINE_STAGE_2_ALL_COMMANDS_BIT 28] [22]) 24),
        Frame (VkQueuePresentKHR 7 (VkPresentInfoKHR [9] [28] [1]))]"
  using C6_record_phase [of demo_world demo_env demo_engine]
  by (simp add: demo_simps)

section \<open>Claim C7: submission, presentation and the frame counter\<close>

text \<open>
  Claim C7. In a frame all of whose calls succeed, the submission waits on the slot's
  swapchain (image-acquired) semaphore at the colour-attachment-output stage, signals
  the slot's render semaphore at the all-commands stage and is fenced with the slot's
  render fence; the present request that follows on the graphics queue waits on the
  render semaphore only; and the frame counter is one more than before (as a 32-bit
  word, and as a signed value whenever it was below \<^verbatim>\<open>INT_MAX\<close>).
\<close>

theorem C7_submit_present_advance:
  assumes "fence_wait_result w (gpu_progress env) (renderFence (get_current_frame e)) 1000000000
             = VK_SUCCESS"
    and "reset_fences_result env = VK_SUCCESS"
    and "acquire_result env = VK_SUCCESS"
    and "reset_command_buffer_result env = VK_SUCCESS"
    and "begin_result env = VK_SUCCESS"
    and "unat (acquire_index env) < length (swapchainImages e)"
    and "end_result env = VK_SUCCESS"
    and "submit_result env = VK_SUCCESS"
    and "present_result env = VK_SUCCESS"
  shows "draw env (e, w) = Inr (outcome_state (draw env (e, w)))
   \<and> calls (snd (outcome_state (draw env (e, w)))) =
       calls w @
       [Frame (VkWaitForFences (device e) (renderFence (get_current_frame e)) True 1000000000)] @
       deferred_calls e (deletionQueue (get_current_frame e)) @
       [Frame (VkResetFences (device e) (renderFence (get_current_frame e))),
        Frame (VkAcquireNextImageKHR (device e) (swapchain e) 1000000000
                 (swapchainSemaphore (get_current_frame e)) VK_NULL_HANDLE),
        Frame (VkResetCommandBuffer (mainCommandBuffer (get_current_frame e)) 0),
        Frame (VkBeginCommandBuffer (mainCommandBuffer (get_current_frame e))
                 VK_COMMAND_BUFFER_USAGE_ONE_TIME_SUBMIT_BIT)] @
       recording_script env e @
       [Frame (VkQueueSubmit2 (graphicsQueue e)
                 (VkSubmitInfo2
                    [VkSemaphoreSubmitInfo VK_PIPELINE_STAGE_2_COLOR_ATTACHMENT_OUTPUT_BIT_KHR
                       (swapchainSemaphore (get_current_frame e))]
                    [VkSemaphoreSubmitInfo VK_PIPELINE_STAGE_2_ALL_COMMANDS_BIT
                       (renderSemaphore (get_current_frame e))]
                    [mainCommandBuffer (get_current_frame e)])
                 (renderFence (get_current_frame e))),
        Frame (VkQueuePresentKHR (graphicsQueue e)
                 (VkPresentInfoKHR [swapchain e] [renderSemaphore (get_current_frame e)]
                    [acquire_index env]))]
   \<and> frameNumber (fst (outcome_state (draw env (e, w)))) = frameNumber e + 1
   \<and> (sint (frameNumber e) < 2147483647 \<longrightarrow>
        sint (frameNumber (fst (outcome_state (draw env (e, w))))) = sint (frameNumber e) + 1)"
  using assms
  by (simp add: draw_success outcome_state_def script_defs Let_def sint_succ)

theorem C7_submit_present_advance_witness:
  "draw demo_env (demo_engine, demo_world) = Inr (outcome_state (draw demo_env (demo_engine, demo_world)))
   \<and> calls (snd (outcome_state (draw demo_env (demo_engine, demo_world)))) =
       [Frame (VkWaitForFences 6 24 True 1000000000),
        Frame (VkResetFences 6 24),
        Frame (VkAcquireNextImageKHR 6 9 1000000000 26 0),
        Frame (VkResetCommandBuffer 22 0),
        Frame (VkBeginCommandBuffer 22 1),
        Frame (Transition_image 22 16 VK_IMAGE_LAYOUT_UNDEFINED VK_IMAGE_LAYOUT_GENERAL),
        Frame (VkCmdClearColorImage 22 16 VK_IMAGE_LAYOUT_GENERAL),
        Frame (Transition_image 22 16 VK_IMAGE_LAYOUT_GENERAL VK_IMAGE_LAYOUT_TRANSFER_SRC_OPTIMAL),
        Frame (Transition_image 22 11 VK_IMAGE_LAYOUT_UNDEFINED VK_IMAGE_LAYOUT_TRANSFER_DST_OPTIMAL),
        Frame (Copy_image_to_image 22 16 11 (VkExtent2D 1700 900) (VkExtent2D 1700 900)),
        Frame (Transition_image 22 11 VK_IMAGE_LAYOUT_TRANSFER_DST_OPTIMAL VK_IMAGE_LAYOUT_PRESENT_SRC_KHR),
        Frame (VkEndCommandBuffer 22),
        Frame (VkQueueSubmit2 7
          (VkSubmitInfo2 [VkSemaphoreSubmitInfo VK_PIPELINE_STAGE_2_COLOR_ATTACHMENT_OUTPUT_BIT_KHR 26]
             [VkSemaphoreSubmitInfo VK_PIPELINE_STAGE_2_ALL_COMMANDS_BIT 28] [22]) 24),
        Frame (VkQueuePresentKHR 7 (VkPresentInfoKHR [9] [28] [1]))]
   \<and> frameNumber (fst (outcome_state (draw demo_env (demo_engine, demo_world)))) = 1
   \<and> sint (frameNumber (fst (outcome_state (draw demo_env (demo_engine, demo_world))))) = 1"
  using C7_submit_present_advance [of demo_world demo_env demo_engine]
  by (simp add: demo_simps)

section \<open>Cleanup, step by step\<close>

lemma fold_emit_map: "fold (\<lambda>x. emit (f x)) xs w = w\<lparr>calls := calls w @ map f xs\<rparr>"
  by (induction xs arbitrary: w) (simp_all add: emit_def)

lemma destroy_swapchain_eq:
  "destroy_swapchain (e, w) =
     (e, w\<lparr>calls := calls w @
            Release (VkDestroySwapchainKHR (device e) (swapchain e)) #
            map (\<lambda>view. Release (VkDestroyImageView (device e) view)) (swapchainImageViews e)\<rparr>)"
  by (simp add: destroy_swapchain_def fold_emit_map emit_def Let_def)

section \<open>Claim C3: the order inside destroy\_swapchain\<close>

text \<open>
  Claim C3, as stated, fails. On an engine with three image views, \<^verbatim>\<open>destroy_swapchain()\<close>
  destroys the chain first and the three views after it, so it is not the case that
  every view is destroyed before the chain.
\<close>

theorem C3_views_before_chain_counterexample:
  "calls (snd (destroy_swapchain (demo_engine, demo_world))) =
     [Release (VkDestroySwapchainKHR 6 9),
      Release (VkDestroyImageView 6 13),
      Release (VkDestroyImageView 6 14),
      Release (VkDestroyImageView 6 15)]
   \<and> \<not> views_before_chain (calls (snd (destroy_swapchain (demo_engine, demo_world))))"
  by (simp add: destroy_swapchain_eq views_before_chain_def demo_engine_def demo_world_def)

text \<open>
  Claim C3, amended. \<^verbatim>\<open>destroy_swapchain()\<close> destroys the chain object first and then
  every image view of \<^verbatim>\<open>_swapchainImageViews\<close>, in index order; these are all the calls
  it makes, so it never destroys a chain-owned image itself, and it leaves the engine's
  members as they are.
\<close>

theorem C3_chain_then_views:
  "destroy_swapchain (e, w) =
     (e, w\<lparr>calls := calls w @
            [Release (VkDestroySwapchainKHR (device e) (swapchain e))] @
            map (\<lambda>view. Release (VkDestroyImageView (device e) view)) (swapchainImageViews e)\<rparr>)"
  by (simp add: destroy_swapchain_eq)

lemma frame_indices: "[0..<FRAME_OVERLAP] = [0, 1]"
  by (simp add: FRAME_OVERLAP_def upt_rec)

lemma deletor_calls_update_frame: "deletor_calls (update_frame i f e) d = deletor_calls e d"
  by (cases d) (simp_all add: update_frame_def)

lemma deferred_calls_update_frame: "deferred_calls (update_frame i f e) q = deferred_calls e q"
proof -
  have "deletor_calls (update_frame i f e) = deletor_calls e"
    by (rule ext) (rule deletor_calls_update_frame)
  then show ?thesis by (simp add: deferred_calls_def)
qed

lemma deletor_calls_main_queue: "deletor_calls (e\<lparr>mainDeletionQueue := q\<rparr>) d = deletor_calls e d"
  by (cases d) simp_all

lemma update_frame_fields:
  "device (update_frame i f e) = device e"
  "vkInstance (update_frame i f e) = vkInstance e"
  "surface (update_frame i f e) = surface e"
  "debugMessenger (update_frame i f e) = debugMessenger e"
  "window (update_frame i f e) = window e"
  "swapchain (update_frame i f e) = swapchain e"
  "swapchainImageViews (update_frame i f e) = swapchainImageViews e"
  "mainDeletionQueue (update_frame i f e) = mainDeletionQueue e"
  "isInitialized (update_frame i f e) = isInitialized e"
  "frames (update_frame i f e) = (frames e)(i := f (frames e i))"
  by (simp_all add: update_frame_def)

lemma cleanup_frame_eq:
  "cleanup_frame i (e, w) =
     (update_frame i (\<lambda>f. f\<lparr>deletionQueue := (deletionQueue f)\<lparr>deletors := []\<rparr>\<rparr>) e,
      w\<lparr>calls := calls w @ frame_release_calls e i @ deferred_calls e (deletionQueue (frames e i))\<rparr>)"
  by (simp add: cleanup_frame_def flush_call_deletor emit_def Let_def frame_release_calls_def
      update_frame_def)

lemma flush_main_eq:
  "flush_main (e, w) =
     (e\<lparr>mainDeletionQueue := (mainDeletionQueue e)\<lparr>deletors := []\<rparr>\<rparr>,
      w\<lparr>calls := calls w @ deferred_calls e (mainDeletionQueue e)\<rparr>)"
  by (simp add: flush_main_def flush_call_deletor)

lemma cleanup_body_calls:
  "calls (snd (cleanup_body (e, w))) =
     calls w @
     [VkDeviceWaitIdle (device e)] @
     frame_release_calls e 0 @ deferred_calls e (deletionQueue (frames e 0)) @
     frame_release_calls e 1 @ deferred_calls e (deletionQueue (frames e 1)) @
     deferred_calls e (mainDeletionQueue e) @
     [Release (VkDestroySwapchainKHR (device e) (swapchain e))] @
     map (\<lambda>view. Release (VkDestroyImageView (device e) view)) (swapchainImageViews e) @
     [Release (VkDestroySurfaceKHR (vkInstance e) (surface e)),
      Release (VkDestroyDevice (device e)),
      Release (Vkb_destroy_debug_utils_messenger (vkInstance e) (debugMessenger e)),
      Release (VkDestroyInstance (vkInstance e)),
      Release (SDL_DestroyWindow (window e))]"
  by (simp add: cleanup_body_def frame_indices do_call_eq cleanup_frame_eq flush_main_eq
      destroy_swapchain_eq update_frame_fields deferred_calls_update_frame
      frame_release_calls_def Let_def)

section \<open>Initialisation, step by step\<close>

lemmas init_defs =
  init_def init_vulkan_def init_swapchain_def create_swapchain_def init_commands_def
  init_commands_body_def init_sync_structures_def init_sync_body_def vkCreateFence_def
  vkb_value_def and_then_def VK_CHECK_def vk_call_eq do_call_eq update_frame_def
  push_function_def frame_indices fence_create_info_def emit_def Let_def

lemma demo_init_calls:
  "calls (snd (outcome_state (init demo_init_env 100 (fresh_engine, fresh_world)))) =
    [Setup SDL_Init, Setup (SDL_CreateWindow 1700 900 1), Setup Vkb_InstanceBuilder_build,
     Setup (SDL_Vulkan_CreateSurface 1 2 4), Setup (Vkb_PhysicalDeviceSelector_select 4),
     Setup (Vkb_DeviceBuilder_build 5), Setup Vkb_get_queue, Setup Vkb_get_queue_index,
     Setup (VmaCreateAllocator 5 6 2 8),
     Setup (Vkb_SwapchainBuilder_build VK_FORMAT_B8G8R8A8_UNORM VK_PRESENT_MODE_FIFO_KHR 1700 900 2),
     Setup (VmaCreateImage 8 VK_FORMAT_R16G16B16A16_SFLOAT 27 (VkExtent3D 1700 900 1) 16 17),
     Setup (VkCreateImageView 6 VK_FORMAT_R16G16B16A16_SFLOAT 16 18),
     Setup (VkCreateCommandPool 6 0 2 20), Setup (VkAllocateCommandBuffers 6 20 1 22),
     Setup (VkCreateCommandPool 6 0 2 21), Setup (VkAllocateCommandBuffers 6 21 1 23),
     Setup (VkCreateFence 6 1 24), Setup (VkCreateSemaphore 6 26), Setup (VkCreateSemaphore 6 28),
     Setup (VkCreateFence 6 1 25), Setup (VkCreateSemaphore 6 27), Setup (VkCreateSemaphore 6 29)]"
  by (simp add: init_defs demo_init_env_def fresh_engine_def fresh_world_def outcome_state_def
      fresh_frame_def VK_IMAGE_USAGE_TRANSFER_SRC_BIT_def VK_IMAGE_USAGE_TRANSFER_DST_BIT_def
      VK_IMAGE_USAGE_STORAGE_BIT_def VK_IMAGE_USAGE_COLOR_ATTACHMENT_BIT_def
      VK_FENCE_CREATE_SIGNALED_BIT_def VK_COMMAND_POOL_CREATE_RESET_COMMAND_BUFFER_BIT_def)

lemma and_then_Inr: "and_then r f = Inr s' \<longleftrightarrow> (\<exists>s. r = Inr s \<and> f s = Inr s')"
  by (cases r) (simp_all add: and_then_def)

lemma VK_CHECK_Inr: "VK_CHECK r s = Inr s' \<longleftrightarrow> r = VK_SUCCESS \<and> s' = s"
  by (auto simp: VK_CHECK_def)

lemma init_sync_body_Inr:
  assumes "init_sync_body env i (e, w) = Inr (e', w')"
  shows "e' = update_frame i (\<lambda>f. f\<lparr>renderFence := snd (create_fence env i),
                                     swapchainSemaphore := snd (create_swapchain_semaphore env i),
                                     renderSemaphore := snd (create_render_semaphore env i)\<rparr>) e
       \<and> w' = w\<lparr>calls := calls w @
                  [Setup (VkCreateFence (device e) VK_FENCE_CREATE_SIGNALED_BIT (snd (create_fence env i))),
                   Setup (VkCreateSemaphore (device e) (snd (create_swapchain_semaphore env i))),
                   Setup (VkCreateSemaphore (device e) (snd (create_render_semaphore env i)))],
                signalled := (signalled w)(snd (create_fence env i) := True)\<rparr>"
  using assms
  by (auto simp: init_sync_body_def vkCreateFence_def and_then_Inr VK_CHECK_Inr vk_call_eq
      update_frame_def fence_create_info_def emit_def VK_FENCE_CREATE_SIGNALED_BIT_def Let_def)

lemma init_sync_structures_Inr:
  assumes "init_sync_structures env (e, w) = Inr (e', w')"
  shows "renderFence (frames e' 0) = snd (create_fence env 0)
       \<and> renderFence (frames e' 1) = snd (create_fence env 1)
       \<and> signalled w' (snd (create_fence env 0)) \<and> signalled w' (snd (create_fence env 1))
       \<and> Setup (VkCreateFence (device e') VK_FENCE_CREATE_SIGNALED_BIT (snd (create_fence env 0)))
            \<in> set (calls w')
       \<and> Setup (VkCreateFence (device e') VK_FENCE_CREATE_SIGNALED_BIT (snd (create_fence env 1)))
            \<in> set (calls w')
       \<and> loadedEngine w' = loadedEngine w
       \<and> mainDeletionQueue e' = mainDeletionQueue e
       \<and> (\<forall>i. deletionQueue (frames e' i) = deletionQueue (frames e i))"
proof -
  from assms obtain e1 w1 where
    a: "init_sync_body env 0 (e, w) = Inr (e1, w1)" and b: "init_sync_body env 1 (e1, w1) = Inr (e', w')"
    by (auto simp: init_sync_structures_def frame_indices and_then_Inr)
  show ?thesis
    using init_sync_body_Inr [OF a] init_sync_body_Inr [OF b]
    by (simp add: update_frame_def)
qed

lemma init_vulkan_Inr:
  assumes "init_vulkan env (e, w) = Inr (e', w')"
  shows "loadedEngine w' = loadedEngine w
       \<and> deletors (mainDeletionQueue e') = deletors (mainDeletionQueue e) @ [DestroyAllocatorFn]
       \<and> frames e' = frames e"
  using assms
  by (auto simp: init_vulkan_def vkb_value_def do_call_eq push_function_def Let_def
      split: option.splits)

lemma init_swapchain_Inr:
  assumes "init_swapchain env (e, w) = Inr (e', w')"
  shows "loadedEngine w' = loadedEngine w
       \<and> deletors (mainDeletionQueue e') = deletors (mainDeletionQueue e) @ [DestroyDrawImageFn]
       \<and> frames e' = frames e"
  using assms
  by (auto simp: init_swapchain_def create_swapchain_def vkb_value_def do_call_eq vk_call_eq
      and_then_Inr VK_CHECK_Inr push_function_def Let_def
      split: option.splits)

lemma init_commands_body_Inr:
  assumes "init_commands_body env i (e, w) = Inr (e', w')"
  shows "loadedEngine w' = loadedEngine w
       \<and> mainDeletionQueue e' = mainDeletionQueue e
       \<and> (\<forall>j. deletionQueue (frames e' j) = deletionQueue (frames e j))"
  using assms
  by (auto simp: init_commands_body_def vk_call_eq and_then_Inr VK_CHECK_Inr update_frame_def)

lemma init_commands_Inr:
  assumes "init_commands env (e, w) = Inr (e', w')"
  shows "loadedEngine w' = loadedEngine w
       \<and> mainDeletionQueue e' = mainDeletionQueue e
       \<and> (\<forall>j. deletionQueue (frames e' j) = deletionQueue (frames e j))"
proof -
  from assms obtain e1 w1 where
    a: "init_commands_body env 0 (e, w) = Inr (e1, w1)"
    and b: "init_commands_body env 1 (e1, w1) = Inr (e', w')"
    by (auto simp: init_commands_def frame_indices and_then_Inr)
  show ?thesis
    using init_commands_body_Inr [OF a] init_commands_body_Inr [OF b] by simp
qed

lemma init_Inr:
  assumes "init env this (e, w) = Inr (e', w')"
  shows "loadedEngine w = None \<and> loadedEngine w' = Some this \<and> isInitialized e'
       \<and> deletors (mainDeletionQueue e') =
           deletors (mainDeletionQueue e) @ [DestroyAllocatorFn, DestroyDrawImageFn]
       \<and> (\<forall>i. deletionQueue (frames e' i) = deletionQueue (frames e i))
       \<and> renderFence (frames e' 0) = snd (create_fence env 0)
       \<and> renderFence (frames e' 1) = snd (create_fence env 1)
       \<and> signalled w' (snd (create_fence env 0)) \<and> signalled w' (snd (create_fence env 1))
       \<and> Setup (VkCreateFence (device e') VK_FENCE_CREATE_SIGNALED_BIT (snd (create_fence env 0)))
            \<in> set (calls w')
       \<and> Setup (VkCreateFence (device e') VK_FENCE_CREATE_SIGNALED_BIT (snd (create_fence env 1)))
            \<in> set (calls w')"
proof -
  define e0 where "e0 = e\<lparr>window := sdl_window env\<rparr>"
  define w0 where "w0 = w\<lparr>loadedEngine := Some this,
      calls := calls w @ [Setup SDL_Init,
        Setup (SDL_CreateWindow (width (windowExtent e)) (height (windowExtent e)) (sdl_window env))]\<rparr>"
  from assms have none: "loadedEngine w = None"
    by (simp add: init_def split: if_splits)
  with assms have "\<exists>e1 w1 e2 w2 e3 w3 e4 w4.
      init_vulkan env (e0, w0) = Inr (e1, w1) \<and> init_swapchain env (e1, w1) = Inr (e2, w2)
      \<and> init_commands env (e2, w2) = Inr (e3, w3) \<and> init_sync_structures env (e3, w3) = Inr (e4, w4)
      \<and> e' = e4\<lparr>isInitialized := True\<rparr> \<and> w' = w4"
    by (auto simp: init_def and_then_Inr do_call_eq Let_def e0_def w0_def)
  then obtain e1 w1 e2 w2 e3 w3 e4 w4 where
    a: "init_vulkan env (e0, w0) = Inr (e1, w1)"
    and b: "init_swapchain env (e1, w1) = Inr (e2, w2)"
    and c: "init_commands env (e2, w2) = Inr (e3, w3)"
    and d: "init_sync_structures env (e3, w3) = Inr (e4, w4)"
    and fin: "e' = e4\<lparr>isInitialized := True\<rparr>" "w' = w4"
    by blast
  have start: "loadedEngine w0 = Some this" "mainDeletionQueue e0 = mainDeletionQueue e"
      "frames e0 = frames e"
    by (simp_all add: e0_def w0_def)
  show ?thesis
    using none start fin init_vulkan_Inr [OF a] init_swapchain_Inr [OF b] init_commands_Inr [OF c]
      init_sync_structures_Inr [OF d]
    by simp
qed

lemma cleanup_body_eq:
  "cleanup_body (e, w) =
     (cleaned_engine e,
      w\<lparr>calls := calls w @
     [VkDeviceWaitIdle (device e)] @
     frame_release_calls e 0 @ deferred_calls e (deletionQueue (frames e 0)) @
     frame_release_calls e 1 @ deferred_calls e (deletionQueue (frames e 1)) @
     deferred_calls e (mainDeletionQueue e) @
     [Release (VkDestroySwapchainKHR (device e) (swapchain e))] @
     map (\<lambda>view. Release (VkDestroyImageView (device e) view)) (swapchainImageViews e) @
     [Release (VkDestroySurfaceKHR (vkInstance e) (surface e)),
      Release (VkDestroyDevice (device e)),
      Release (Vkb_destroy_debug_utils_messenger (vkInstance e) (debugMessenger e)),
      Release (VkDestroyInstance (vkInstance e)),
      Release (SDL_DestroyWindow (window e))]\<rparr>)"
  by (simp add: cleanup_body_def frame_indices do_call_eq cleanup_frame_eq flush_main_eq
      destroy_swapchain_eq update_frame_fields deferred_calls_update_frame
      frame_release_calls_def cleaned_engine_def Let_def)

lemma cleaned_engine_fields:
  "device (cleaned_engine e) = device e"
  "vkInstance (cleaned_engine e) = vkInstance e"
  "surface (cleaned_engine e) = surface e"
  "debugMessenger (cleaned_engine e) = debugMessenger e"
  "window (cleaned_engine e) = window e"
  "swapchain (cleaned_engine e) = swapchain e"
  "swapchainImageViews (cleaned_engine e) = swapchainImageViews e"
  "isInitialized (cleaned_engine e) = isInitialized e"
  "deletors (mainDeletionQueue (cleaned_engine e)) = []"
  "deletors (deletionQueue (frames (cleaned_engine e) 0)) = []"
  "deletors (deletionQueue (frames (cleaned_engine e) 1)) = []"
  "deletors (deletionQueue (frames (cleaned_engine e) (Suc 0))) = []"
  "frame_release_calls (cleaned_engine e) i = frame_release_calls e i"
  by (simp_all add: cleaned_engine_def update_frame_def frame_release_calls_def)

lemma cleanup_eq:
  "cleanup (e, w) =
     (if isInitialized e
      then (fst (cleanup_body (e, w)), (snd (cleanup_body (e, w)))\<lparr>loadedEngine := None\<rparr>)
      else (e, w\<lparr>loadedEngine := None\<rparr>))"
  by (simp add: cleanup_def Let_def)

lemma ready_state_init: "init demo_init_env 100 (fresh_engine, fresh_world) = Inr ready_state"
  by (simp add: ready_state_def init_defs demo_init_env_def fresh_engine_def fresh_world_def
      outcome_state_def)

lemmas demo_init_simps =
  init_defs demo_init_env_def fresh_engine_def fresh_world_def outcome_state_def
  fresh_frame_def VK_IMAGE_USAGE_TRANSFER_SRC_BIT_def VK_IMAGE_USAGE_TRANSFER_DST_BIT_def
  VK_IMAGE_USAGE_STORAGE_BIT_def VK_IMAGE_USAGE_COLOR_ATTACHMENT_BIT_def
  VK_FENCE_CREATE_SIGNALED_BIT_def VK_COMMAND_POOL_CREATE_RESET_COMMAND_BUFFER_BIT_def

lemma ready_engine_fields:
  "isInitialized (fst ready_state)" "frameNumber (fst ready_state) = 0"
  "device (fst ready_state) = 6" "vkInstance (fst ready_state) = 2"
  "surface (fst ready_state) = 4" "debugMessenger (fst ready_state) = 3"
  "window (fst ready_state) = 1" "swapchain (fst ready_state) = 9"
  "allocator (fst ready_state) = 8"
  "swapchainImageViews (fst ready_state) = [13, 14, 15]"
  "imageHandle (drawImage (fst ready_state)) = 16"
  "imageView (drawImage (fst ready_state)) = 18"
  "allocation (drawImage (fst ready_state)) = 17"
  "deletors (mainDeletionQueue (fst ready_state)) = [DestroyAllocatorFn, DestroyDrawImageFn]"
  by (simp_all add: ready_state_def demo_init_simps)

lemma ready_frame_fields:
  "frames (fst ready_state) 0 =
     \<lparr>commandPool = 20, mainCommandBuffer = 22, swapchainSemaphore = 26, renderSemaphore = 28,
      renderFence = 24, deletionQueue = \<lparr>deletors = []\<rparr>\<rparr>"
  "frames (fst ready_state) 1 =
     \<lparr>commandPool = 21, mainCommandBuffer = 23, swapchainSemaphore = 27, renderSemaphore = 29,
      renderFence = 25, deletionQueue = \<lparr>deletors = []\<rparr>\<rparr>"
  "frames (fst ready_state) (Suc 0) =
     \<lparr>commandPool = 21, mainCommandBuffer = 23, swapchainSemaphore = 27, renderSemaphore = 29,
      renderFence = 25, deletionQueue = \<lparr>deletors = []\<rparr>\<rparr>"
  by (simp_all add: ready_state_def demo_init_simps)

lemma ready_world_fields:
  "loadedEngine (snd ready_state) = Some 100"
  "signalled (snd ready_state) f = (f = 24 \<or> f = 25)"
  "blocked_ns (snd ready_state) = 0"
  by (auto simp add: ready_state_def demo_init_simps)

section \<open>Two frames in a row\<close>




section \<open>Claim C10: the fences start signalled\<close>






section \<open>Claim C5: the order of cleanup\<close>

text \<open>
  Claim C5. On an initialised engine \<^verbatim>\<open>cleanup()\<close> first calls \<^verbatim>\<open>vkDeviceWaitIdle\<close>; then,
  for frame 0 and then frame 1, it destroys the frame's pool, fence and semaphores and
  flushes the frame's DeletionQueue, last pushed first; then it flushes the global
  DeletionQueue, last pushed first; then it destroys swapchain, surface, device,
  messenger, instance and window. All three queues are empty afterwards. The global
  queue of an engine that \<^verbatim>\<open>init()\<close> has set up ends with the allocator's deletor
  followed by the draw image's, so that the draw image's view and image are released
  before the allocator that was created before them, and after the per-frame objects
  that were created after them.
\<close>

theorem C5_cleanup_order:
  "(isInitialized e \<longrightarrow>
     calls (snd (cleanup (e, w))) =
       calls w @
       [VkDeviceWaitIdle (device e)] @
       [Release (VkDestroyCommandPool (device e) (commandPool (frames e 0))),
        Release (VkDestroyFence (device e) (renderFence (frames e 0))),
        Release (VkDestroySemaphore (device e) (renderSemaphore (frames e 0))),
        Release (VkDestroySemaphore (device e) (swapchainSemaphore (frames e 0)))] @
       concat (map (deletor_calls e) (rev (deletors (deletionQueue (frames e 0))))) @
       [Release (VkDestroyCommandPool (device e) (commandPool (frames e 1))),
        Release (VkDestroyFence (device e) (renderFence (frames e 1))),
        Release (VkDestroySemaphore (device e) (renderSemaphore (frames e 1))),
        Release (VkDestroySemaphore (device e) (swapchainSemaphore (frames e 1)))] @
       concat (map (deletor_calls e) (rev (deletors (deletionQueue (frames e 1))))) @
       concat (map (deletor_calls e) (rev (deletors (mainDeletionQueue e)))) @
       [Release (VkDestroySwapchainKHR (device e) (swapchain e))] @
       map (\<lambda>view. Release (VkDestroyImageView (device e) view)) (swapchainImageViews e) @
       [Release (VkDestroySurfaceKHR (vkInstance e) (surface e)),
        Release (VkDestroyDevice (device e)),
        Release (Vkb_destroy_debug_utils_messenger (vkInstance e) (debugMessenger e)),
        Release (VkDestroyInstance (vkInstance e)),
        Release (SDL_DestroyWindow (window e))]
     \<and> deletors (deletionQueue (frames (fst (cleanup (e, w))) 0)) = []
     \<and> deletors (deletionQueue (frames (fst (cleanup (e, w))) 1)) = []
     \<and> deletors (mainDeletionQueue (fst (cleanup (e, w)))) = [])
   \<and> (init ienv this (e0, w0) = Inr (e, w) \<longrightarrow>
        deletors (mainDeletionQueue e) =
          deletors (mainDeletionQueue e0) @ [DestroyAllocatorFn, DestroyDrawImageFn]
        \<and> deletionQueue (frames e 0) = deletionQueue (frames e0 0)
        \<and> deletionQueue (frames e 1) = deletionQueue (frames e0 1)
        \<and> concat (map (deletor_calls e) (rev [DestroyAllocatorFn, DestroyDrawImageFn])) =
            [Release (VkDestroyImageView (device e) (imageView (drawImage e))),
             Release (VmaDestroyImage (allocator e) (imageHandle (drawImage e)) (allocation (drawImage e))),
             Release (VmaDestroyAllocator (allocator e))])"
proof -
  have "init ienv this (e0, w0) = Inr (e, w) \<Longrightarrow>
        deletors (mainDeletionQueue e) =
          deletors (mainDeletionQueue e0) @ [DestroyAllocatorFn, DestroyDrawImageFn]
        \<and> deletionQueue (frames e 0) = deletionQueue (frames e0 0)
        \<and> deletionQueue (frames e 1) = deletionQueue (frames e0 1)"
    using init_Inr [of ienv this e0 w0 e w] by simp
  then show ?thesis
    by (simp add: cleanup_eq cleanup_body_eq cleaned_engine_fields frame_release_calls_def
        deferred_calls_def)
qed

theorem C5_cleanup_order_witness:
  "init demo_init_env 100 (fresh_engine, fresh_world) = Inr (fst ready_state, snd ready_state)
   \<and> isInitialized (fst ready_state)
   \<and> calls_since (snd ready_state) (snd (cleanup (fst ready_state, snd ready_state))) =
       [VkDeviceWaitIdle 6,
        Release (VkDestroyCommandPool 6 20), Release (VkDestroyFence 6 24),
        Release (VkDestroySemaphore 6 28), Release (VkDestroySemaphore 6 26),
        Release (VkDestroyCommandPool 6 21), Release (VkDestroyFence 6 25),
        Release (VkDestroySemaphore 6 29), Release (VkDestroySemaphore 6 27),
        Release (VkDestroyImageView 6 18), Release (VmaDestroyImage 8 16 17),
        Release (VmaDestroyAllocator 8),
        Release (VkDestroySwapchainKHR 6 9),
        Release (VkDestroyImageView 6 13), Release (VkDestroyImageView 6 14),
        Release (VkDestroyImageView 6 15),
        Release (VkDestroySurfaceKHR 2 4), Release (VkDestroyDevice 6),
        Release (Vkb_destroy_debug_utils_messenger 2 3), Release (VkDestroyInstance 2),
        Release (SDL_DestroyWindow 1)]"
proof -
  have r: "init demo_init_env 100 (fresh_engine, fresh_world) = Inr (fst ready_state, snd ready_state)"
    by (simp add: ready_state_init)
  show ?thesis
    using C5_cleanup_order [of "fst ready_state" "snd ready_state" demo_init_env 100 fresh_engine
        fresh_world] r
    by (simp add: calls_since_def ready_engine_fields ready_frame_fields)
qed

section \<open>Events and the main loop\<close>











lemma stop_rendering_frame: "get_current_frame (e\<lparr>stop_rendering := x\<rparr>) = get_current_frame e"
  by (simp add: get_current_frame_def current_frame_index_def)










section \<open>Claim C8: the loop while rendering is suspended\<close>



lemma cleaned_engine_frame:
  "commandPool (frames (cleaned_engine e) i) = commandPool (frames e i)"
  "renderFence (frames (cleaned_engine e) i) = renderFence (frames e i)"
  "renderSemaphore (frames (cleaned_engine e) i) = renderSemaphore (frames e i)"
  "swapchainSemaphore (frames (cleaned_engine e) i) = swapchainSemaphore (frames e i)"
  by (simp_all add: cleaned_engine_def update_frame_def)

lemma cleanup_state:
  "cleanup s =
     (if isInitialized (fst s)
      then (cleaned_engine (fst s),
            (snd s)\<lparr>calls := calls (snd s) @
              [VkDeviceWaitIdle (device (fst s))] @
              frame_release_calls (fst s) 0 @ deferred_calls (fst s) (deletionQueue (frames (fst s) 0)) @
              frame_release_calls (fst s) 1 @ deferred_calls (fst s) (deletionQueue (frames (fst s) 1)) @
              deferred_calls (fst s) (mainDeletionQueue (fst s)) @
              [Release (VkDestroySwapchainKHR (device (fst s)) (swapchain (fst s)))] @
              map (\<lambda>view. Release (VkDestroyImageView (device (fst s)) view))
                (swapchainImageViews (fst s)) @
              [Release (VkDestroySurfaceKHR (vkInstance (fst s)) (surface (fst s))),
               Release (VkDestroyDevice (device (fst s))),
               Release (Vkb_destroy_debug_utils_messenger (vkInstance (fst s)) (debugMessenger (fst s))),
               Release (VkDestroyInstance (vkInstance (fst s))),
               Release (SDL_DestroyWindow (window (fst s)))],
             loadedEngine := None\<rparr>)
      else (fst s, (snd s)\<lparr>loadedEngine := None\<rparr>))"
  using cleanup_eq [of "fst s" "snd s"] cleanup_body_eq [of "fst s" "snd s"] by simp

section \<open>Claim C9: init twice, cleanup without init\<close>

text \<open>
  Claim C9, as stated, fails in its last part. \<^verbatim>\<open>cleanup()\<close> never clears
  \<^verbatim>\<open>_isInitialized\<close>, so after \<^verbatim>\<open>init()\<close> and one completed \<^verbatim>\<open>cleanup()\<close> a second
  \<^verbatim>\<open>cleanup()\<close> waits for the device and destroys the per-frame objects, swapchain,
  views, surface, device, messenger, instance and window once more.
\<close>

theorem C9_repeat_cleanup_counterexample:
  "init demo_init_env 100 (fresh_engine, fresh_world) = Inr ready_state
   \<and> loadedEngine (snd (cleanup ready_state)) = None
   \<and> calls_since (snd (cleanup ready_state)) (snd (cleanup (cleanup ready_state))) =
       [VkDeviceWaitIdle 6,
        Release (VkDestroyCommandPool 6 20), Release (VkDestroyFence 6 24),
        Release (VkDestroySemaphore 6 28), Release (VkDestroySemaphore 6 26),
        Release (VkDestroyCommandPool 6 21), Release (VkDestroyFence 6 25),
        Release (VkDestroySemaphore 6 29), Release (VkDestroySemaphore 6 27),
        Release (VkDestroySwapchainKHR 6 9),
        Release (VkDestroyImageView 6 13), Release (VkDestroyImageView 6 14),
        Release (VkDestroyImageView 6 15),
        Release (VkDestroySurfaceKHR 2 4), Release (VkDestroyDevice 6),
        Release (Vkb_destroy_debug_utils_messenger 2 3), Release (VkDestroyInstance 2),
        Release (SDL_DestroyWindow 1)]"
  by (simp add: ready_state_init cleanup_state [of ready_state]
      cleanup_state [of "(cleaned_engine (fst ready_state), w)" for w]
      calls_since_def cleaned_engine_fields cleaned_engine_frame ready_engine_fields ready_frame_fields
      frame_release_calls_def deferred_calls_def)

text \<open>
  Claim C9, amended. \<^verbatim>\<open>init()\<close> entered while the global engine pointer is not null
  fails the assertion before doing anything else; an \<^verbatim>\<open>init()\<close> that completed leaves
  the pointer set to its engine, so that a following \<^verbatim>\<open>init()\<close>, on any engine object
  and with any answers of the environment, fails the assertion; and \<^verbatim>\<open>cleanup()\<close> on
  an engine whose \<^verbatim>\<open>_isInitialized\<close> is false makes no call and only clears the
  global pointer.
\<close>

theorem C9_init_once_cleanup_guarded:
  "(loadedEngine w \<noteq> None \<longrightarrow> init env this (e, w) = Inl (AssertionFailed, (e, w)))
   \<and> (init env this (e, w) = Inr (e1, w1) \<longrightarrow>
        loadedEngine w1 = Some this \<and> isInitialized e1
        \<and> init env2 this2 (e2, w1) = Inl (AssertionFailed, (e2, w1)))
   \<and> (\<not> isInitialized e \<longrightarrow> cleanup (e, w) = (e, w\<lparr>loadedEngine := None\<rparr>))"
proof -
  have a: "init env' this' (e', w') = Inl (AssertionFailed, (e', w'))" if "loadedEngine w' \<noteq> None"
    for env' this' e' w'
    using that by (simp add: init_def)
  have b: "loadedEngine w1 = Some this \<and> isInitialized e1" if "init env this (e, w) = Inr (e1, w1)"
    using init_Inr [OF that] by simp
  show ?thesis
    using a [of w env this e] a [of w1 env2 this2 e2] b by (auto simp: cleanup_eq)
qed

theorem C9_init_once_cleanup_guarded_witness:
  "init demo_init_env 100 (fresh_engine, snd ready_state) = Inl (AssertionFailed, (fresh_engine, snd ready_state))
   \<and> init demo_init_env 100 (fresh_engine, fresh_world) = Inr (fst ready_state, snd ready_state)
   \<and> loadedEngine (snd ready_state) = Some 100 \<and> isInitialized (fst ready_state)
   \<and> init demo_init_env 100 (fst ready_state, snd ready_state)
        = Inl (AssertionFailed, (fst ready_state, snd ready_state))
   \<and> cleanup (fresh_engine, fresh_world) = (fresh_engine, fresh_world\<lparr>loadedEngine := None\<rparr>)"
proof -
  have r: "init demo_init_env 100 (fresh_engine, fresh_world) = Inr (fst ready_state, snd ready_state)"
    by (simp add: ready_state_init)
  have f: "\<not> isInitialized fresh_engine" by (simp add: fresh_engine_def)
  show ?thesis
    using C9_init_once_cleanup_guarded [of "snd ready_state" demo_init_env 100 fresh_engine]
      C9_init_once_cleanup_guarded [of fresh_world demo_init_env 100 fresh_engine "fst ready_state"
        "snd ready_state" demo_init_env 100 "fst ready_state"] r f
    by (simp add: ready_world_fields)
qed

end
